theory Spec2Isabelle
  imports Main "HOL-Library.Word"
begin

section \<open>Values of the Go program\<close>

text \<open>
  A Go \<^verbatim>\<open>string\<close> and a \<^verbatim>\<open>[]byte\<close> are byte sequences; a HOL \<^typ>\<open>char\<close> is a byte,
  so both are modelled by \<^typ>\<open>string\<close>. A \<^verbatim>\<open>[32]byte\<close> array has exactly 256 bits and
  its zero value is all zeros: it is a \<^typ>\<open>256 word\<close>. An \<^verbatim>\<open>int64\<close> that the code adds
  is a \<^typ>\<open>64 word\<close> (addition wraps); the ledger sequence numbers, which the code only
  compares, are integers.
\<close>

type_synonym bytes = string
type_synonym hash32 = "256 word"
type_synonym int64 = "64 word"

text \<open>
  A Go function that returns \<^verbatim>\<open>(value, error)\<close> returns a sum. \<open>Error m\<close> is an error
  value with message \<open>m\<close> (\<^verbatim>\<open>errors.New(m)\<close>, or an error of a library); \<open>Panic m\<close> is a
  run-time panic of the Go code modelled here (an index out of range, a nil pointer
  dereference), which no caller in the package recovers from. Library functions
  return \<^typ>\<open>string + 'a\<close>: an error message or a value; that a library function
  itself panics is not modelled.
\<close>

datatype error = Error string | Panic string

definition index_out_of_range :: string where
  "index_out_of_range = ''runtime error: index out of range [0] with length 0''"

definition nil_dereference :: string where
  "nil_dereference = ''runtime error: invalid memory address or nil pointer dereference''"

definition ErrorRequiredSource :: string where
  "ErrorRequiredSource = ''Source Address is required''"
definition ErrorRequiredWasm :: string where
  "ErrorRequiredWasm = ''Wasm is required''"
definition ErrorRequiredWasmHash :: string where
  "ErrorRequiredWasmHash = ''WasmHash is required''"
definition ErrorRequiredClient :: string where
  "ErrorRequiredClient = ''Client is required''"
definition ErrorRequiredKeyPair :: string where
  "ErrorRequiredKeyPair = ''Key pair is required''"
definition ErrorRequiredSalt :: string where
  "ErrorRequiredSalt = ''Salt is required''"
definition ErrorWasmCodeNeedsRestore :: string where
  "ErrorWasmCodeNeedsRestore = ''Wasm code has no ttl, requires a restore''"
definition ErrorContractNeedsRestore :: string where
  "ErrorContractNeedsRestore = ''Contract has no ttl, requires a restore''"
definition ErrorContractDataNeedsRestore :: string where
  "ErrorContractDataNeedsRestore = ''Contract data has no ttl, requires a restore''"
definition ErrorInvokeRequiresFunction :: string where
  "ErrorInvokeRequiresFunction = ''Function is required''"

subsection \<open>The xdr values the package builds\<close>

datatype AccountId = PublicKeyTypeEd25519 hash32

datatype ScAddress =
    ScAddressTypeAccount AccountId
  | ScAddressTypeContract hash32

text \<open>The package only builds the \<^verbatim>\<open>FromAddress\<close> arm of the preimage union.\<close>

datatype ContractIdPreimage =
  ContractIdPreimageFromAddress (Address: ScAddress) (Salt: hash32)

datatype HashIdPreimage =
  EnvelopeTypeContractId (NetworkId: hash32) (ContractIdPreimage: ContractIdPreimage)

text \<open>
  \<open>LedgerKeyZero\<close> is the zero value \<^verbatim>\<open>xdr.LedgerKey{}\<close>. A contract-data key built by
  the package is always the persistent contract-instance key of an address.
\<close>

datatype LedgerKey =
    LedgerKeyZero
  | LedgerKeyContractCode hash32
  | LedgerKeyContractData ScAddress

datatype ScVal =
    ScvBool bool
  | ScvI32 "32 word"
  | ScvI64 "64 word"
  | ScvU32 "32 word"
  | ScvU64 "64 word"
  | ScvString string
  | ScvSymbol string
  | ScvOther string

datatype SorobanAuthorizationEntry = SorobanAuthorizationEntry string

datatype SorobanTransactionData =
  SorobanTransactionData (ReadOnly: "LedgerKey list") (ReadWrite: "LedgerKey list")
    (Resources: string)

datatype TransactionExt =
  TransactionExt (V: "32 word") (SorobanData: "SorobanTransactionData option")

datatype HostFunction =
    HostFunctionTypeUploadContractWasm bytes
  | HostFunctionTypeCreateContract ContractIdPreimage hash32
  | HostFunctionTypeInvokeContract ScAddress string "ScVal list"

text \<open>
  \<^verbatim>\<open>txnbuild.Operation\<close> is an interface; its implementations are pointers to operation
  structs. \<open>OtherOperation\<close> stands for every operation that is neither an
  invoke-host-function nor a restore-footprint (a payment, say). Every builder of the
  package owns the operations it is given (each call site passes a fresh object), so
  an operation is stored by value in the builder's list.
\<close>

datatype Operation =
    InvokeHostFunction (HostFunction: HostFunction) (Auth: "SorobanAuthorizationEntry list")
      (OpSourceAccount: string) (Ext: TransactionExt)
  | RestoreFootprint (OpSourceAccount: string) (Ext: TransactionExt)
  | OtherOperation string

datatype Account = Account (GetAccountID: string)

datatype KeyPair = KeyPair string

datatype TimeBounds = TimeBounds (MinTime: int) (MaxTime: int)

datatype LedgerBounds = LedgerBounds (MinLedger: "32 word") (MaxLedger: "32 word")

datatype Memo = MemoText string

record Preconditions =
  pTimeBounds :: TimeBounds
  pLedgerBounds :: "LedgerBounds option"
  pMinSequenceNumber :: "int64 option"
  pMinSequenceNumberAge :: "64 word"
  pMinSequenceNumberLedgerGap :: "32 word"
  pExtraSigners :: "string list"

record TransactionParams =
  SourceAccount :: "Account option"
  Operations :: "Operation list"
  Preconditions :: Preconditions
  BaseFee :: int64
  IncrementSequenceNum :: bool

text \<open>A \<^verbatim>\<open>txnbuild.Transaction\<close>, opaque to the package.\<close>

datatype Tx = Tx string

subsection \<open>The results of the RPC methods (client.go)\<close>

record SendTransactionResult =
  Hash :: string
  sendStatus :: string
  ErrorResultXdr :: string

record SimulateResult =
  resAuth :: "string list"
  resXDR :: string

record RestorePreamble =
  rpMinResourceFee :: int64
  rpTransactionData :: string

record SimulateTransactionResult =
  simError :: string
  TransactionData :: string
  MinResourceFee :: int64
  Results :: "SimulateResult list"
  RestorePreamble :: RestorePreamble

record GetTransactionResult =
  Status :: string
  ResultXdr :: string
  ResultMetaXdr :: string

record GetLedgerEntrie =
  Key :: string
  Xdr :: string
  LastModifiedLedgerSeq :: int
  LiveUntilLedgerSeq :: int

record GetLedgerEntriesResult =
  LatestLedger :: int
  Entries :: "GetLedgerEntrie list"

section \<open>The world outside the package\<close>

text \<open>
  Everything the package does to the outside is recorded, in order, in a trace: the
  transactions it asks \<^verbatim>\<open>txnbuild.NewTransaction\<close> to build (with their parameters),
  the RPC calls it issues and the time it sleeps (a \<^verbatim>\<open>time.Duration\<close>, in
  nanoseconds).
\<close>

datatype event =
    NewTransactionCall TransactionParams
  | SimulateTransactionCall string
  | SendTransactionCall string
  | GetTransactionCall string
  | GetLedgerEntriesCall "string list"
  | Sleep int

type_synonym trace = "event list"

text \<open>
  The libraries and the network are parameters. The pure ones (hashing, the xdr codec,
  signing) are functions of their arguments. \<^verbatim>\<open>txnbuild.NewTransaction\<close> reads and
  increments the sequence number of the source account, \<^verbatim>\<open>txnbuild.NewTimeout\<close> reads
  the clock, and the answers of the network change over time: they are functions of
  the trace so far as well.
  The \<open>Call\<close> fields are \<^verbatim>\<open>Client.CallResult\<close> at each method: the JSON-RPC exchange
  and the decoding of its result.
\<close>

record env =
  Sum256 :: "bytes \<Rightarrow> hash32"
  AddressToAccountId :: "string \<Rightarrow> string + AccountId"
  MarshalBinary :: "HashIdPreimage \<Rightarrow> string + bytes"
  MarshalBinaryBase64 :: "LedgerKey \<Rightarrow> string + string"
  UnmarshalScVal :: "string \<Rightarrow> string + ScVal"
  UnmarshalAuthorizationEntry :: "string \<Rightarrow> string + SorobanAuthorizationEntry"
  UnmarshalTransactionData :: "string \<Rightarrow> string + SorobanTransactionData"
  NewTransaction :: "trace \<Rightarrow> TransactionParams \<Rightarrow> string + Tx"
  NewTimeout :: "trace \<Rightarrow> int \<Rightarrow> TimeBounds"
  Sign :: "string \<Rightarrow> KeyPair option list \<Rightarrow> Tx \<Rightarrow> string + Tx"
  Base64 :: "Tx \<Rightarrow> string + string"
  CallSimulateTransaction :: "trace \<Rightarrow> string \<Rightarrow> string + SimulateTransactionResult"
  CallSendTransaction :: "trace \<Rightarrow> string \<Rightarrow> string + SendTransactionResult"
  CallGetTransaction :: "trace \<Rightarrow> string \<Rightarrow> string + GetTransactionResult"
  CallGetLedgerEntries :: "trace \<Rightarrow> string list \<Rightarrow> string + GetLedgerEntriesResult"

section \<open>The contract (contract.go)\<close>

record Client =
  URL :: string
  PassPhrase :: string
  FriendbotURL :: string

text \<open>
  The pointers and the interface of the struct are options: \<open>None\<close> is \<^verbatim>\<open>nil\<close>.
  \<^verbatim>\<open>NewContract()\<close> is the zero value.
\<close>

record Contract =
  wasm :: bytes
  wasmHash :: hash32
  salt :: hash32
  client :: "Client option"
  source :: "Account option"
  kp :: "KeyPair option"
  address :: "ScAddress option"

definition NewContract :: Contract where
  "NewContract = \<lparr>wasm = [], wasmHash = 0, salt = 0, client = None, source = None,
     kp = None, address = None\<rparr>"

definition Wasm :: "env \<Rightarrow> bytes \<Rightarrow> Contract \<Rightarrow> Contract" where
  "Wasm env w c = c\<lparr>wasm := w, wasmHash := Sum256 env w\<rparr>"

definition WasmHash :: "hash32 \<Rightarrow> Contract \<Rightarrow> Contract" where
  "WasmHash h c = c\<lparr>wasmHash := h\<rparr>"

definition Salt_c :: "env \<Rightarrow> string \<Rightarrow> Contract \<Rightarrow> Contract" where
  "Salt_c env s c = c\<lparr>salt := Sum256 env s\<rparr>"

definition Client_c :: "Client option \<Rightarrow> Contract \<Rightarrow> Contract" where
  "Client_c cl c = c\<lparr>client := cl\<rparr>"

definition SourceAccount_c :: "Account option \<Rightarrow> Contract \<Rightarrow> Contract" where
  "SourceAccount_c a c = c\<lparr>source := a\<rparr>"

definition KeyPair_c :: "KeyPair option \<Rightarrow> Contract \<Rightarrow> Contract" where
  "KeyPair_c k c = c\<lparr>kp := k\<rparr>"

definition Address_c :: "ScAddress \<Rightarrow> Contract \<Rightarrow> Contract" where
  "Address_c a c = c\<lparr>address := Some a\<rparr>"

text \<open>\<^verbatim>\<open>len\<close> of a \<^verbatim>\<open>[32]byte\<close> array is the constant 32, whatever the array holds.\<close>

definition len32 :: "hash32 \<Rightarrow> nat" where
  "len32 h = 32"

definition getContractIdPreimage :: "env \<Rightarrow> Contract \<Rightarrow> error + ContractIdPreimage" where
  "getContractIdPreimage env c =
     (case source c of
        None \<Rightarrow> Inl (Panic nil_dereference)
      | Some src \<Rightarrow>
          (case AddressToAccountId env (GetAccountID src) of
             Inl e \<Rightarrow> Inl (Error e)
           | Inr sourceAccountID \<Rightarrow>
               Inr (ContractIdPreimageFromAddress (ScAddressTypeAccount sourceAccountID)
                      (salt c))))"

text \<open>
  \<^verbatim>\<open>GetAddress\<close> caches the address it derives in the contract: it returns the contract
  as it leaves it.
\<close>

definition GetAddress :: "env \<Rightarrow> Contract \<Rightarrow> (error + ScAddress) \<times> Contract" where
  "GetAddress env c =
     (case address c of
        Some a \<Rightarrow> (Inr a, c)
      | None \<Rightarrow>
          (case source c of
             None \<Rightarrow> (Inl (Error ErrorRequiredSource), c)
           | Some src \<Rightarrow>
               (case client c of
                  None \<Rightarrow> (Inl (Error ErrorRequiredClient), c)
                | Some cl \<Rightarrow>
                    if len32 (salt c) = 0 then (Inl (Error ErrorRequiredSalt), c)
                    else
                      (case getContractIdPreimage env c of
                         Inl e \<Rightarrow> (Inl e, c)
                       | Inr contractIdPreimage \<Rightarrow>
                           (case MarshalBinary env
                                   (EnvelopeTypeContractId (Sum256 env (PassPhrase cl))
                                      contractIdPreimage) of
                              Inl e \<Rightarrow> (Inl (Error e), c)
                            | Inr xdrPreImageBytes \<Rightarrow>
                                (let a = ScAddressTypeContract (Sum256 env xdrPreImageBytes)
                                 in (Inr a, c\<lparr>address := Some a\<rparr>)))))))"


definition GetCodeKey :: "Contract \<Rightarrow> error + LedgerKey" where
  "GetCodeKey c =
     (if len32 (wasmHash c) = 0 then Inl (Error ErrorRequiredWasmHash)
      else Inr (LedgerKeyContractCode (wasmHash c)))"

text \<open>When \<^verbatim>\<open>GetAddress\<close> fails, \<^verbatim>\<open>GetFootprint\<close> returns the zero key and no error.\<close>

definition GetFootprint :: "env \<Rightarrow> Contract \<Rightarrow> (error + LedgerKey) \<times> Contract" where
  "GetFootprint env c =
     (if len32 (wasmHash c) = 0 then (Inl (Error ErrorRequiredWasmHash), c)
      else
        (case GetAddress env c of
           (Inl (Panic m), c1) \<Rightarrow> (Inl (Panic m), c1)
         | (Inl (Error e), c1) \<Rightarrow> (Inr LedgerKeyZero, c1)
         | (Inr contractAddress, c1) \<Rightarrow> (Inr (LedgerKeyContractData contractAddress), c1)))"

section \<open>The RPC methods of the client (client.go)\<close>

text \<open>
  The methods have value receivers: calling one through a nil \<^verbatim>\<open>*Client\<close> panics, which
  the callers below write out. A call that reaches \<^verbatim>\<open>CallResult\<close> is recorded in the
  trace, whatever it answers.
\<close>

definition SendTransaction :: "env \<Rightarrow> Tx \<Rightarrow> trace \<Rightarrow> (error + SendTransactionResult) \<times> trace" where
  "SendTransaction env tx w =
     (case Base64 env tx of
        Inl e \<Rightarrow> (Inl (Error e), w)
      | Inr base64 \<Rightarrow>
          (case CallSendTransaction env w base64 of
             Inl e \<Rightarrow> (Inl (Error e), w @ [SendTransactionCall base64])
           | Inr r \<Rightarrow> (Inr r, w @ [SendTransactionCall base64])))"

definition SimulateTransaction ::
  "env \<Rightarrow> Tx \<Rightarrow> trace \<Rightarrow> (error + SimulateTransactionResult) \<times> trace" where
  "SimulateTransaction env tx w =
     (case Base64 env tx of
        Inl e \<Rightarrow> (Inl (Error e), w)
      | Inr base64 \<Rightarrow>
          (case CallSimulateTransaction env w base64 of
             Inl e \<Rightarrow> (Inl (Error e), w @ [SimulateTransactionCall base64])
           | Inr r \<Rightarrow> (Inr r, w @ [SimulateTransactionCall base64])))"

definition GetTransaction ::
  "env \<Rightarrow> string \<Rightarrow> trace \<Rightarrow> (error + GetTransactionResult) \<times> trace" where
  "GetTransaction env hash w =
     (case CallGetTransaction env w hash of
        Inl e \<Rightarrow> (Inl (Error e), w @ [GetTransactionCall hash])
      | Inr r \<Rightarrow> (Inr r, w @ [GetTransactionCall hash]))"

definition GetLedgerEntries ::
  "env \<Rightarrow> string list \<Rightarrow> trace \<Rightarrow> (error + GetLedgerEntriesResult) \<times> trace" where
  "GetLedgerEntries env keys w =
     (case CallGetLedgerEntries env w keys of
        Inl e \<Rightarrow> (Inl (Error e), w @ [GetLedgerEntriesCall keys])
      | Inr r \<Rightarrow> (Inr r, w @ [GetLedgerEntriesCall keys]))"

section \<open>The transaction builder (transaction.go)\<close>

record transactionBuild =
  bSource :: "Account option"
  operations :: "Operation list"
  signers :: "KeyPair option list"
  timeBounds :: TimeBounds
  ledgerBounds :: "LedgerBounds option"
  minSequenceNumber :: "int64 option"
  minSequenceNumberAge :: "64 word"
  minSequenceNumberLedgerGap :: "32 word"
  extraSigners :: "string list"
  bMemo :: "Memo option"
  baseFee :: int64
  incrementSequenceNum :: bool

record Transaction =
  tClient :: "Client option"
  build :: transactionBuild

definition MinBaseFee :: int64 where
  "MinBaseFee = 100"

definition NewTransctionBuilder :: Transaction where
  "NewTransctionBuilder =
     \<lparr>tClient = None,
      build = \<lparr>bSource = None, operations = [], signers = [], timeBounds = TimeBounds 0 0,
        ledgerBounds = None, minSequenceNumber = None, minSequenceNumberAge = 0,
        minSequenceNumberLedgerGap = 0, extraSigners = [], bMemo = None,
        baseFee = MinBaseFee, incrementSequenceNum = True\<rparr>\<rparr>"

definition Client_t :: "Client option \<Rightarrow> Transaction \<Rightarrow> Transaction" where
  "Client_t c t = t\<lparr>tClient := c\<rparr>"

definition SourceAccount_t :: "Account option \<Rightarrow> Transaction \<Rightarrow> Transaction" where
  "SourceAccount_t s t = t\<lparr>build := (build t)\<lparr>bSource := s\<rparr>\<rparr>"

definition Operation_t :: "Operation list \<Rightarrow> Transaction \<Rightarrow> Transaction" where
  "Operation_t ops t = t\<lparr>build := (build t)\<lparr>operations := operations (build t) @ ops\<rparr>\<rparr>"

definition Signer :: "KeyPair option list \<Rightarrow> Transaction \<Rightarrow> Transaction" where
  "Signer ks t = t\<lparr>build := (build t)\<lparr>signers := signers (build t) @ ks\<rparr>\<rparr>"

definition TimeBounds_t :: "TimeBounds \<Rightarrow> Transaction \<Rightarrow> Transaction" where
  "TimeBounds_t tb t = t\<lparr>build := (build t)\<lparr>timeBounds := tb\<rparr>\<rparr>"

definition LedgerBounds_t :: "LedgerBounds option \<Rightarrow> Transaction \<Rightarrow> Transaction" where
  "LedgerBounds_t lb t = t\<lparr>build := (build t)\<lparr>ledgerBounds := lb\<rparr>\<rparr>"

definition MinSequenceNumber :: "int64 option \<Rightarrow> Transaction \<Rightarrow> Transaction" where
  "MinSequenceNumber mn t = t\<lparr>build := (build t)\<lparr>minSequenceNumber := mn\<rparr>\<rparr>"

definition MinSequenceNumberAge :: "64 word \<Rightarrow> Transaction \<Rightarrow> Transaction" where
  "MinSequenceNumberAge mn t = t\<lparr>build := (build t)\<lparr>minSequenceNumberAge := mn\<rparr>\<rparr>"

definition MinSequenceNumberLedgerGap :: "32 word \<Rightarrow> Transaction \<Rightarrow> Transaction" where
  "MinSequenceNumberLedgerGap mn t =
     t\<lparr>build := (build t)\<lparr>minSequenceNumberLedgerGap := mn\<rparr>\<rparr>"

definition ExtraSigner :: "string list \<Rightarrow> Transaction \<Rightarrow> Transaction" where
  "ExtraSigner s t = t\<lparr>build := (build t)\<lparr>extraSigners := extraSigners (build t) @ s\<rparr>\<rparr>"

definition Memo_t :: "Memo option \<Rightarrow> Transaction \<Rightarrow> Transaction" where
  "Memo_t m t = t\<lparr>build := (build t)\<lparr>bMemo := m\<rparr>\<rparr>"

definition BaseFee_t :: "int64 \<Rightarrow> Transaction \<Rightarrow> Transaction" where
  "BaseFee_t f t = t\<lparr>build := (build t)\<lparr>baseFee := f\<rparr>\<rparr>"

text \<open>
  \<^verbatim>\<open>Authorization\<close> reads \<^verbatim>\<open>t.build.operations[0]\<close> with no check of the length: on an
  empty list the index panics. The type assertion selects an invoke-host-function
  operation only.
\<close>

definition Authorization ::
  "SorobanAuthorizationEntry list \<Rightarrow> Transaction \<Rightarrow> error + Transaction" where
  "Authorization auth t =
     (case operations (build t) of
        [] \<Rightarrow> Inl (Panic index_out_of_range)
      | op # ops \<Rightarrow>
          (case op of
             InvokeHostFunction hf a sa ext \<Rightarrow>
               Inr (t\<lparr>build := (build t)\<lparr>operations := InvokeHostFunction hf auth sa ext # ops\<rparr>\<rparr>)
           | RestoreFootprint sa ext \<Rightarrow> Inr t
           | OtherOperation k \<Rightarrow> Inr t))"

definition SorobanData_t :: "SorobanTransactionData \<Rightarrow> Transaction \<Rightarrow> Transaction" where
  "SorobanData_t data t =
     (case operations (build t) of
        [] \<Rightarrow> t
      | op # ops \<Rightarrow>
          (case op of
             InvokeHostFunction hf a sa ext \<Rightarrow>
               t\<lparr>build := (build t)\<lparr>operations :=
                   InvokeHostFunction hf a sa (TransactionExt 1 (Some data)) # ops\<rparr>\<rparr>
           | RestoreFootprint sa ext \<Rightarrow>
               t\<lparr>build := (build t)\<lparr>operations :=
                   RestoreFootprint sa (TransactionExt 1 (Some data)) # ops\<rparr>\<rparr>
           | OtherOperation k \<Rightarrow> t))"

definition buildParams :: "Transaction \<Rightarrow> TransactionParams" where
  "buildParams t =
     \<lparr>SourceAccount = bSource (build t),
      Operations = operations (build t),
      Preconditions =
        \<lparr>pTimeBounds = timeBounds (build t),
         pLedgerBounds = ledgerBounds (build t),
         pMinSequenceNumber = minSequenceNumber (build t),
         pMinSequenceNumberAge = minSequenceNumberAge (build t),
         pMinSequenceNumberLedgerGap = minSequenceNumberLedgerGap (build t),
         pExtraSigners = extraSigners (build t)\<rparr>,
      BaseFee = baseFee (build t),
      IncrementSequenceNum = incrementSequenceNum (build t)\<rparr>"

definition buildTx :: "env \<Rightarrow> Transaction \<Rightarrow> trace \<Rightarrow> (error + Tx) \<times> trace" where
  "buildTx env t w =
     (case NewTransaction env w (buildParams t) of
        Inl e \<Rightarrow> (Inl (Error e), w @ [NewTransactionCall (buildParams t)])
      | Inr tx \<Rightarrow> (Inr tx, w @ [NewTransactionCall (buildParams t)]))"

text \<open>The inner loop of \<^verbatim>\<open>Simulate\<close>: decode each entry and append it to \<open>auth\<close>.\<close>

fun decodeAuth ::
  "env \<Rightarrow> string list \<Rightarrow> SorobanAuthorizationEntry list \<Rightarrow>
   string + SorobanAuthorizationEntry list" where
  "decodeAuth env [] auth = Inr auth"
| "decodeAuth env (authBase64 # rest) auth =
     (case UnmarshalAuthorizationEntry env authBase64 of
        Inl e \<Rightarrow> Inl e
      | Inr authEntry \<Rightarrow> decodeAuth env rest (auth @ [authEntry]))"

text \<open>The outer loop: decode the result value of each operation, then its entries.\<close>

fun decodeResults ::
  "env \<Rightarrow> SimulateResult list \<Rightarrow> SorobanAuthorizationEntry list \<Rightarrow>
   string + SorobanAuthorizationEntry list" where
  "decodeResults env [] auth = Inr auth"
| "decodeResults env (res # rest) auth =
     (case UnmarshalScVal env (resXDR res) of
        Inl e \<Rightarrow> Inl e
      | Inr decodedRes \<Rightarrow>
          (case decodeAuth env (resAuth res) auth of
             Inl e \<Rightarrow> Inl e
           | Inr auth' \<Rightarrow> decodeResults env rest auth'))"

text \<open>
  \<^verbatim>\<open>Simulate\<close> mutates the builder it is called on: it returns the builder as it leaves
  it, also when it fails.
\<close>

definition Simulate ::
  "env \<Rightarrow> Transaction \<Rightarrow> trace \<Rightarrow> (error + SimulateTransactionResult) \<times> Transaction \<times> trace" where
  "Simulate env t w =
     (let increase = incrementSequenceNum (build t);
          t1 = t\<lparr>build := (build t)\<lparr>incrementSequenceNum := False\<rparr>\<rparr>;
          (r, w1) = buildTx env t1 w;
          t2 = t1\<lparr>build := (build t1)\<lparr>incrementSequenceNum := increase\<rparr>\<rparr>
      in case r of
           Inl e \<Rightarrow> (Inl e, t2, w1)
         | Inr tx \<Rightarrow>
             (case tClient t2 of
                None \<Rightarrow> (Inl (Panic nil_dereference), t2, w1)
              | Some cl \<Rightarrow>
                  (case SimulateTransaction env tx w1 of
                     (Inl e, w2) \<Rightarrow> (Inl e, t2, w2)
                   | (Inr res, w2) \<Rightarrow>
                       (case decodeResults env (Results res) [] of
                          Inl e \<Rightarrow> (Inl (Error e), t2, w2)
                        | Inr auth \<Rightarrow>
                            (case UnmarshalTransactionData env (TransactionData res) of
                               Inl e \<Rightarrow> (Inl (Error e), t2, w2)
                             | Inr transactionData \<Rightarrow>
                                 (let t3 = SorobanData_t transactionData
                                             (BaseFee_t (MinResourceFee res + MinBaseFee) t2)
                                  in case Authorization auth t3 of
                                       Inl e \<Rightarrow> (Inl e, t3, w2)
                                     | Inr t4 \<Rightarrow> (Inr res, t4, w2)))))))"

definition Send :: "env \<Rightarrow> Transaction \<Rightarrow> trace \<Rightarrow> (error + SendTransactionResult) \<times> trace" where
  "Send env t w =
     (case buildTx env t w of
        (Inl e, w1) \<Rightarrow> (Inl e, w1)
      | (Inr tx, w1) \<Rightarrow>
          (case tClient t of
             None \<Rightarrow> (Inl (Panic nil_dereference), w1)
           | Some cl \<Rightarrow>
               (case Sign env (PassPhrase cl) (signers (build t)) tx of
                  Inl e \<Rightarrow> (Inl (Error e), w1)
                | Inr signedTx \<Rightarrow> SendTransaction env signedTx w1)))"

section \<open>Liveness (contract.go)\<close>

text \<open>
  \<^verbatim>\<open>IsCodeAlive\<close> reads \<^verbatim>\<open>res.Entries[0]\<close> with no check of the length;
  \<^verbatim>\<open>IsInstanceAlive\<close> checks \<^verbatim>\<open>len(res.Entries) == 0\<close> first. The comparison of the two
  \<^verbatim>\<open>int64\<close> sequence numbers is signed.
\<close>

definition IsCodeAlive ::
  "env \<Rightarrow> Contract \<Rightarrow> trace \<Rightarrow> (error + bool \<times> GetLedgerEntriesResult) \<times> trace" where
  "IsCodeAlive env c w =
     (case client c of
        None \<Rightarrow> (Inl (Error ErrorRequiredClient), w)
      | Some cl \<Rightarrow>
          (case GetCodeKey c of
             Inl e \<Rightarrow> (Inl e, w)
           | Inr ledgerKey \<Rightarrow>
               (case MarshalBinaryBase64 env ledgerKey of
                  Inl e \<Rightarrow> (Inl (Error e), w)
                | Inr base64 \<Rightarrow>
                    (case GetLedgerEntries env [base64] w of
                       (Inl e, w1) \<Rightarrow> (Inl e, w1)
                     | (Inr res, w1) \<Rightarrow>
                         (case Entries res of
                            [] \<Rightarrow> (Inl (Panic index_out_of_range), w1)
                          | entry # rest \<Rightarrow>
                              (Inr (LatestLedger res \<le> LiveUntilLedgerSeq entry, res), w1))))))"

definition IsInstanceAlive ::
  "env \<Rightarrow> Contract \<Rightarrow> trace \<Rightarrow>
   (error + bool \<times> GetLedgerEntriesResult) \<times> Contract \<times> trace" where
  "IsInstanceAlive env c w =
     (case GetFootprint env c of
        (Inl e, c1) \<Rightarrow> (Inl e, c1, w)
      | (Inr ledgerKey, c1) \<Rightarrow>
          (case MarshalBinaryBase64 env ledgerKey of
             Inl e \<Rightarrow> (Inl (Error e), c1, w)
           | Inr base64 \<Rightarrow>
               (case client c1 of
                  None \<Rightarrow> (Inl (Panic nil_dereference), c1, w)
                | Some cl \<Rightarrow>
                    (case GetLedgerEntries env [base64] w of
                       (Inl e, w1) \<Rightarrow> (Inl e, c1, w1)
                     | (Inr res, w1) \<Rightarrow>
                         (case Entries res of
                            [] \<Rightarrow> (Inr (False, res), c1, w1)
                          | entry # rest \<Rightarrow>
                              (Inr (LatestLedger res \<le> LiveUntilLedgerSeq entry, res),
                               c1, w1))))))"

definition IsAlive :: "env \<Rightarrow> Contract \<Rightarrow> trace \<Rightarrow> (error + bool) \<times> Contract \<times> trace" where
  "IsAlive env c w =
     (case IsCodeAlive env c w of
        (Inl e, w1) \<Rightarrow> (Inl e, c, w1)
      | (Inr (code, codeEntries), w1) \<Rightarrow>
          (case IsInstanceAlive env c w1 of
             (Inl e, c1, w2) \<Rightarrow> (Inl e, c1, w2)
           | (Inr (instance, instanceEntries), c1, w2) \<Rightarrow> (Inr (code \<and> instance), c1, w2)))"

section \<open>The completion poller (contract.go)\<close>

definition Second :: int where
  "Second = 1000000000"

text \<open>
  The loop \<^verbatim>\<open>for i := 0; i < 5; i++\<close> of \<^verbatim>\<open>waitCompletedTransaction\<close>, from a value of
  \<open>i\<close>. With \<open>i\<close> below 5 the duration \<open>i * 2 * Second\<close> is far from overflowing.
\<close>

function waitCompletedTransaction_loop ::
  "env \<Rightarrow> string \<Rightarrow> int \<Rightarrow> trace \<Rightarrow> (error + GetTransactionResult option) \<times> trace" where
  "waitCompletedTransaction_loop env hash i w =
     (if i < 5 then
        (case GetTransaction env hash w of
           (Inl e, w1) \<Rightarrow> (Inl e, w1)
         | (Inr res, w1) \<Rightarrow>
             (if Status res \<noteq> ''NOT_FOUND'' then (Inr (Some res), w1)
              else waitCompletedTransaction_loop env hash (i + 1)
                     (w1 @ [Sleep (i * 2 * Second)])))
      else (Inr None, w))"
  by pat_completeness auto
termination
  by (relation "measure (\<lambda>(env, hash, i, w). nat (5 - i))") auto

text \<open>
  The method has a pointer receiver; \<^verbatim>\<open>c.GetTransaction\<close> dereferences it at the first
  attempt.
\<close>

definition waitCompletedTransaction ::
  "env \<Rightarrow> Client option \<Rightarrow> string \<Rightarrow> trace \<Rightarrow>
   (error + GetTransactionResult option) \<times> trace" where
  "waitCompletedTransaction env c hash w =
     (case c of
        None \<Rightarrow> (Inl (Panic nil_dereference), w)
      | Some cl \<Rightarrow> waitCompletedTransaction_loop env hash 0 w)"

section \<open>Install, Deploy, Restore and Invoke (contract.go)\<close>

text \<open>
  The chain that every operation of the contract starts its builder with:
  \<^verbatim>\<open>NewTransctionBuilder().Client(c.client).SourceAccount(c.source).Signer(c.kp).
  Operation(op).TimeBounds(txnbuild.NewTimeout(30))\<close>.
\<close>

definition contractTransaction :: "env \<Rightarrow> Contract \<Rightarrow> Operation \<Rightarrow> trace \<Rightarrow> Transaction" where
  "contractTransaction env c op w =
     TimeBounds_t (NewTimeout env w 30)
       (Operation_t [op]
          (Signer [kp c]
             (SourceAccount_t (source c)
                (Client_t (client c) NewTransctionBuilder))))"

definition simulateSubmitHostFunction ::
  "env \<Rightarrow> Contract \<Rightarrow> Operation \<Rightarrow> trace \<Rightarrow> (error + SendTransactionResult) \<times> trace" where
  "simulateSubmitHostFunction env c op w =
     (case Simulate env (contractTransaction env c op w) w of
        (Inl e, transaction, w1) \<Rightarrow> (Inl e, w1)
      | (Inr res, transaction, w1) \<Rightarrow> Send env transaction w1)"

definition Install :: "env \<Rightarrow> Contract \<Rightarrow> trace \<Rightarrow> (error + SendTransactionResult) \<times> trace" where
  "Install env c w =
     (case client c of
        None \<Rightarrow> (Inl (Error ErrorRequiredClient), w)
      | Some cl \<Rightarrow>
          (case source c of
             None \<Rightarrow> (Inl (Error ErrorRequiredSource), w)
           | Some src \<Rightarrow>
               (case kp c of
                  None \<Rightarrow> (Inl (Error ErrorRequiredKeyPair), w)
                | Some k \<Rightarrow>
                    simulateSubmitHostFunction env c
                      (InvokeHostFunction (HostFunctionTypeUploadContractWasm (wasm c)) []
                         (GetAccountID src) (TransactionExt 0 None)) w)))"

definition Deploy :: "env \<Rightarrow> Contract \<Rightarrow> trace \<Rightarrow> (error + SendTransactionResult) \<times> trace" where
  "Deploy env c w =
     (case client c of
        None \<Rightarrow> (Inl (Error ErrorRequiredClient), w)
      | Some cl \<Rightarrow>
          (case source c of
             None \<Rightarrow> (Inl (Error ErrorRequiredSource), w)
           | Some src \<Rightarrow>
               (case kp c of
                  None \<Rightarrow> (Inl (Error ErrorRequiredKeyPair), w)
                | Some k \<Rightarrow>
                    (case IsCodeAlive env c w of
                       (Inl e, w1) \<Rightarrow> (Inl e, w1)
                     | (Inr (isCodeAlive, entries), w1) \<Rightarrow>
                         if \<not> isCodeAlive then (Inl (Error ErrorWasmCodeNeedsRestore), w1)
                         else
                           (case getContractIdPreimage env c of
                              Inl e \<Rightarrow> (Inl e, w1)
                            | Inr contractIdPreimage \<Rightarrow>
                                simulateSubmitHostFunction env c
                                  (InvokeHostFunction
                                     (HostFunctionTypeCreateContract contractIdPreimage
                                        (wasmHash c)) []
                                     (GetAccountID src) (TransactionExt 0 None)) w1)))))"

definition Restore ::
  "env \<Rightarrow> Contract \<Rightarrow> trace \<Rightarrow> (error + SendTransactionResult) \<times> Contract \<times> trace" where
  "Restore env c w =
     (case GetCodeKey c of
        Inl e \<Rightarrow> (Inl e, c, w)
      | Inr codeKey \<Rightarrow>
          (case GetFootprint env c of
             (Inl e, c1) \<Rightarrow> (Inl e, c1, w)
           | (Inr instanceKey, c1) \<Rightarrow>
               (case source c1 of
                  None \<Rightarrow> (Inl (Panic nil_dereference), c1, w)
                | Some src \<Rightarrow>
                    (case Simulate env
                            (SorobanData_t (SorobanTransactionData [] [codeKey, instanceKey] [])
                               (contractTransaction env c1
                                  (RestoreFootprint (GetAccountID src) (TransactionExt 0 None)) w))
                            w of
                       (Inl e, transaction, w1) \<Rightarrow> (Inl e, c1, w1)
                     | (Inr res, transaction, w1) \<Rightarrow>
                         (case Send env transaction w1 of (r, w2) \<Rightarrow> (r, c1, w2))))))"

record invokeBuild =
  func :: string
  prams :: "ScVal list"

text \<open>\<^verbatim>\<open>Invoke()\<close> starts from an empty build; the setters fill it.\<close>

definition Invoke :: invokeBuild where
  "Invoke = \<lparr>func = [], prams = []\<rparr>"

definition Function :: "string \<Rightarrow> invokeBuild \<Rightarrow> invokeBuild" where
  "Function f b = b\<lparr>func := f\<rparr>"

definition Params :: "ScVal list \<Rightarrow> invokeBuild \<Rightarrow> invokeBuild" where
  "Params ps b = b\<lparr>prams := prams b @ ps\<rparr>"

definition Symbol :: "string \<Rightarrow> invokeBuild \<Rightarrow> invokeBuild" where
  "Symbol s b = b\<lparr>prams := prams b @ [ScvSymbol s]\<rparr>"

text \<open>The invoke-host-function operation of \<^verbatim>\<open>invoke\<close>.\<close>

definition invokeHostFunctionOp :: "ScAddress \<Rightarrow> invokeBuild \<Rightarrow> Account \<Rightarrow> Operation" where
  "invokeHostFunctionOp contractAddress b src =
     InvokeHostFunction (HostFunctionTypeInvokeContract contractAddress (func b) (prams b)) []
       (GetAccountID src) (TransactionExt 0 None)"

text \<open>
  The restore transaction of \<^verbatim>\<open>invoke\<close>: its Soroban data is decoded from
  \<^verbatim>\<open>res.TransactionData\<close>, its fee comes from \<^verbatim>\<open>res.RestorePreamble.MinResourceFee\<close>.
\<close>

definition restoreTransaction ::
  "env \<Rightarrow> Contract \<Rightarrow> Account \<Rightarrow> SorobanTransactionData \<Rightarrow> SimulateTransactionResult \<Rightarrow>
   trace \<Rightarrow> Transaction" where
  "restoreTransaction env c src transactionData res w =
     BaseFee_t (rpMinResourceFee (RestorePreamble res) + MinBaseFee)
       (SorobanData_t transactionData
          (contractTransaction env c
             (RestoreFootprint (GetAccountID src) (TransactionExt 0 None)) w))"

definition invoke ::
  "env \<Rightarrow> Contract \<Rightarrow> invokeBuild \<Rightarrow> bool \<Rightarrow> trace \<Rightarrow>
   (error + SendTransactionResult) \<times> Contract \<times> trace" where
  "invoke env c b restore w =
     (case GetAddress env c of
        (Inl e, c1) \<Rightarrow> (Inl e, c1, w)
      | (Inr contractAddress, c1) \<Rightarrow>
          (case source c1 of
             None \<Rightarrow> (Inl (Panic nil_dereference), c1, w)
           | Some src \<Rightarrow>
               (case Simulate env
                       (contractTransaction env c1 (invokeHostFunctionOp contractAddress b src) w)
                       w of
                  (Inl e, transaction, w1) \<Rightarrow> (Inl e, c1, w1)
                | (Inr res, transaction, w1) \<Rightarrow>
                    if rpMinResourceFee (RestorePreamble res) \<noteq> 0 then
                      (if \<not> restore then (Inl (Error ErrorContractDataNeedsRestore), c1, w1)
                       else
                         (case UnmarshalTransactionData env (TransactionData res) of
                            Inl e \<Rightarrow> (Inl (Error e), c1, w1)
                          | Inr transactionData \<Rightarrow>
                              (case Send env
                                      (restoreTransaction env c1 src transactionData res w1)
                                      w1 of
                                 (Inl e, w2) \<Rightarrow> (Inl e, c1, w2)
                               | (Inr sent, w2) \<Rightarrow>
                                   (case waitCompletedTransaction env (client c1) (Hash sent) w2 of
                                      (Inl (Panic m), w3) \<Rightarrow> (Inl (Panic m), c1, w3)
                                    | (completed, w3) \<Rightarrow>
                                        (case Send env transaction w3 of
                                           (r, w4) \<Rightarrow> (r, c1, w4))))))
                    else (case Send env transaction w1 of (r, w2) \<Rightarrow> (r, c1, w2)))))"

definition invokeBuilder_Send ::
  "env \<Rightarrow> Contract \<Rightarrow> invokeBuild \<Rightarrow> trace \<Rightarrow>
   (error + SendTransactionResult) \<times> Contract \<times> trace" where
  "invokeBuilder_Send env c b w =
     (if func b = [] then (Inl (Error ErrorInvokeRequiresFunction), c, w)
      else
        (case IsAlive env c w of
           (Inl e, c1, w1) \<Rightarrow> (Inl e, c1, w1)
         | (Inr isAlive, c1, w1) \<Rightarrow>
             if \<not> isAlive then (Inl (Error ErrorContractNeedsRestore), c1, w1)
             else invoke env c1 b False w1))"

definition RestoreAndSend ::
  "env \<Rightarrow> Contract \<Rightarrow> invokeBuild \<Rightarrow> trace \<Rightarrow>
   (error + SendTransactionResult) \<times> Contract \<times> trace" where
  "RestoreAndSend env c b w =
     (if func b = [] then (Inl (Error ErrorInvokeRequiresFunction), c, w)
      else
        (case IsAlive env c w of
           (Inl e, c1, w1) \<Rightarrow> (Inl e, c1, w1)
         | (Inr isAlive, c1, w1) \<Rightarrow>
             if \<not> isAlive then
               (case Restore env c1 w1 of
                  (Inl e, c2, w2) \<Rightarrow> (Inl e, c2, w2)
                | (Inr res, c2, w2) \<Rightarrow>
                    (case waitCompletedTransaction env (client c2) (Hash res) w2 of
                       (Inl (Panic m), w3) \<Rightarrow> (Inl (Panic m), c2, w3)
                     | (completed, w3) \<Rightarrow> invoke env c2 b True w3))
             else invoke env c1 b True w1))"

section \<open>Reading the trace\<close>

definition newTransactionCalls :: "trace \<Rightarrow> TransactionParams list" where
  "newTransactionCalls w =
     concat (map (\<lambda>ev. case ev of NewTransactionCall p \<Rightarrow> [p] | _ \<Rightarrow> []) w)"

definition sendTransactionCalls :: "trace \<Rightarrow> string list" where
  "sendTransactionCalls w =
     concat (map (\<lambda>ev. case ev of SendTransactionCall b \<Rightarrow> [b] | _ \<Rightarrow> []) w)"

definition getTransactionCalls :: "trace \<Rightarrow> string list" where
  "getTransactionCalls w =
     concat (map (\<lambda>ev. case ev of GetTransactionCall h \<Rightarrow> [h] | _ \<Rightarrow> []) w)"

definition sleeps :: "trace \<Rightarrow> int list" where
  "sleeps w = concat (map (\<lambda>ev. case ev of Sleep d \<Rightarrow> [d] | _ \<Rightarrow> []) w)"

text \<open>
  What \<open>k\<close> attempts of the poller that all find \<^verbatim>\<open>NOT_FOUND\<close> add to the trace: attempt
  \<open>i\<close> queries the hash and then sleeps \<open>i * 2\<close> seconds.
\<close>

fun polled :: "string \<Rightarrow> nat \<Rightarrow> trace" where
  "polled hash 0 = []"
| "polled hash (Suc k) = polled hash k @ [GetTransactionCall hash, Sleep (int k * 2 * Second)]"

text \<open>
  The authorization entries of the leading operation of a builder: those of an
  invoke-host-function operation; no other operation has any.
\<close>

definition leadingAuth :: "Transaction \<Rightarrow> SorobanAuthorizationEntry list" where
  "leadingAuth t =
     (case operations (build t) of
        [] \<Rightarrow> []
      | op # ops \<Rightarrow>
          (case op of
             InvokeHostFunction hf a sa ext \<Rightarrow> a
           | RestoreFootprint sa ext \<Rightarrow> []
           | OtherOperation k \<Rightarrow> []))"

section \<open>The derivation of the address as the specification words it\<close>

text \<open>
  Section 4.1 of the specification: build the preimage from the account address of the
  source and the salt, hash the network passphrase into the network identifier,
  combine both into the preimage record, encode it, hash the encoding and wrap the
  digest as a contract address. It fails when the account identifier does not parse
  (or the encoder fails).
\<close>

definition deriveAddress :: "env \<Rightarrow> string \<Rightarrow> hash32 \<Rightarrow> string \<Rightarrow> error + ScAddress" where
  "deriveAddress env sourceAccountId saltHash networkPassphrase =
     (case AddressToAccountId env sourceAccountId of
        Inl e \<Rightarrow> Inl (Error e)
      | Inr accountAddress \<Rightarrow>
          (case MarshalBinary env
                  (EnvelopeTypeContractId (Sum256 env networkPassphrase)
                     (ContractIdPreimageFromAddress (ScAddressTypeAccount accountAddress)
                        saltHash)) of
             Inl e \<Rightarrow> Inl (Error e)
           | Inr encoding \<Rightarrow> Inr (ScAddressTypeContract (Sum256 env encoding))))"

section \<open>A concrete world\<close>

text \<open>
  A small instance of the libraries and of the network, on which the definitions
  compute: the theorems below are applied to it.
\<close>

definition env0 :: env where
  "env0 =
     \<lparr>Sum256 = (\<lambda>b. of_nat (length b)),
      AddressToAccountId =
        (\<lambda>s. if s = [] then Inl ''invalid account''
             else Inr (PublicKeyTypeEd25519 (of_nat (length s)))),
      MarshalBinary =
        (\<lambda>p. case p of EnvelopeTypeContractId n (ContractIdPreimageFromAddress a s) \<Rightarrow>
           Inr (replicate (unat n + unat s) CHR ''x'')),
      MarshalBinaryBase64 =
        (\<lambda>k. case k of LedgerKeyZero \<Rightarrow> Inl ''zero key''
           | LedgerKeyContractCode h \<Rightarrow> Inr ''code''
           | LedgerKeyContractData a \<Rightarrow> Inr ''instance''),
      UnmarshalScVal = (\<lambda>s. Inr (ScvOther s)),
      UnmarshalAuthorizationEntry = (\<lambda>s. Inr (SorobanAuthorizationEntry s)),
      UnmarshalTransactionData = (\<lambda>s. Inr (SorobanTransactionData [] [] s)),
      NewTransaction =
        (\<lambda>w p. if Operations p = [] then Inl ''no operations'' else Inr (Tx ''tx'')),
      NewTimeout = (\<lambda>w n. TimeBounds 0 n),
      Sign = (\<lambda>passphrase ks tx. Inr tx),
      Base64 = (\<lambda>tx. case tx of Tx s \<Rightarrow> Inr s),
      CallSimulateTransaction =
        (\<lambda>w b. Inr \<lparr>simError = [], TransactionData = ''A'', MinResourceFee = 7,
           Results = [\<lparr>resAuth = [''a1'', ''a2''], resXDR = ''r1''\<rparr>],
           RestorePreamble = \<lparr>rpMinResourceFee = 0, rpTransactionData = []\<rparr>\<rparr>),
      CallSendTransaction =
        (\<lambda>w b. Inr \<lparr>Hash = ''h'', sendStatus = ''PENDING'', ErrorResultXdr = []\<rparr>),
      CallGetTransaction =
        (\<lambda>w h. Inr \<lparr>Status = ''SUCCESS'', ResultXdr = [], ResultMetaXdr = []\<rparr>),
      CallGetLedgerEntries =
        (\<lambda>w ks. Inr \<lparr>LatestLedger = 10,
           Entries = [\<lparr>Key = [], Xdr = [], LastModifiedLedgerSeq = 1,
             LiveUntilLedgerSeq = 10\<rparr>]\<rparr>)\<rparr>"

definition client0 :: Client where
  "client0 = \<lparr>URL = ''http://localhost:8000/rpc'', PassPhrase = ''Standalone Network'',
     FriendbotURL = []\<rparr>"

definition contract0 :: Contract where
  "contract0 =
     KeyPair_c (Some (KeyPair ''S1''))
       (SourceAccount_c (Some (Account ''GABC''))
          (Salt_c env0 ''a1'' (Client_c (Some client0) (Wasm env0 ''wasm'' NewContract))))"

text \<open>Answers of \<^verbatim>\<open>getTransaction\<close>: \<^verbatim>\<open>NOT_FOUND\<close> to the first \<open>n\<close> queries, then success.\<close>

definition notFound :: GetTransactionResult where
  "notFound = \<lparr>Status = ''NOT_FOUND'', ResultXdr = [], ResultMetaXdr = []\<rparr>"

definition success :: GetTransactionResult where
  "success = \<lparr>Status = ''SUCCESS'', ResultXdr = ''result'', ResultMetaXdr = ''meta''\<rparr>"

definition envPoll :: "nat \<Rightarrow> env" where
  "envPoll n = env0\<lparr>CallGetTransaction :=
     (\<lambda>w h. if length (getTransactionCalls w) < n then Inr notFound else Inr success)\<rparr>"

text \<open>Two builders as the contract makes them, and the answer of \<open>env0\<close> to a simulation.\<close>

definition restoreBuilder0 :: Transaction where
  "restoreBuilder0 =
     contractTransaction env0 contract0 (RestoreFootprint ''GABC'' (TransactionExt 0 None)) []"

definition invokeBuild0 :: invokeBuild where
  "invokeBuild0 = Symbol ''World'' (Function ''hello'' Invoke)"

definition invokeBuilder0 :: Transaction where
  "invokeBuilder0 =
     contractTransaction env0 contract0
       (invokeHostFunctionOp (ScAddressTypeContract 20) invokeBuild0 (Account ''GABC'')) []"

definition simulated0 :: SimulateTransactionResult where
  "simulated0 =
     \<lparr>simError = [], TransactionData = ''A'', MinResourceFee = 7,
      Results = [\<lparr>resAuth = [''a1'', ''a2''], resXDR = ''r1''\<rparr>],
      RestorePreamble = \<lparr>rpMinResourceFee = 0, rpTransactionData = []\<rparr>\<rparr>"

text \<open>
  Variants of the world: a simulation that reports a restore preamble, whose
  transaction data differs from that of the result; a ledger with no entry for any
  key; a contract whose code bytes were never set; the first contract once its address
  is derived.
\<close>

definition simulatedStale :: SimulateTransactionResult where
  "simulatedStale =
     \<lparr>simError = [], TransactionData = ''A'', MinResourceFee = 7,
      Results = [\<lparr>resAuth = [''a1'', ''a2''], resXDR = ''r1''\<rparr>],
      RestorePreamble = \<lparr>rpMinResourceFee = 5, rpTransactionData = ''B''\<rparr>\<rparr>"

definition envStale :: env where
  "envStale = env0\<lparr>CallSimulateTransaction := (\<lambda>w b. Inr simulatedStale)\<rparr>"

definition envNoEntries :: env where
  "envNoEntries = env0\<lparr>CallGetLedgerEntries := (\<lambda>w ks. Inr \<lparr>LatestLedger = 10, Entries = []\<rparr>)\<rparr>"

definition contractNoWasm :: Contract where
  "contractNoWasm =
     KeyPair_c (Some (KeyPair ''S1''))
       (SourceAccount_c (Some (Account ''GABC''))
          (Salt_c env0 ''a1'' (Client_c (Some client0) NewContract)))"

definition contract1 :: Contract where
  "contract1 = contract0\<lparr>address := Some (ScAddressTypeContract 20)\<rparr>"

section \<open>Properties\<close>

lemmas contract0_defs = contract0_def KeyPair_c_def SourceAccount_c_def Salt_c_def Client_c_def
  Wasm_def NewContract_def client0_def

lemmas builder_defs = contractTransaction_def NewTransctionBuilder_def TimeBounds_t_def
  Operation_t_def Signer_def SourceAccount_t_def Client_t_def BaseFee_t_def

lemmas invoke0_defs = invokeHostFunctionOp_def invokeBuild0_def Invoke_def Function_def Symbol_def

lemmas Simulate_defs = Simulate_def Let_def buildTx_def buildParams_def SimulateTransaction_def
  Authorization_def SorobanData_t_def MinBaseFee_def

declare waitCompletedTransaction_loop.simps [simp del]

subsection \<open>The trace\<close>

lemma newTransactionCalls_append [simp]:
  "newTransactionCalls (a @ b) = newTransactionCalls a @ newTransactionCalls b"
  by (simp add: newTransactionCalls_def)

lemma newTransactionCalls_simps [simp]:
  "newTransactionCalls [] = []"
  "newTransactionCalls (NewTransactionCall p # w) = p # newTransactionCalls w"
  "newTransactionCalls (SimulateTransactionCall s # w) = newTransactionCalls w"
  "newTransactionCalls (SendTransactionCall s # w) = newTransactionCalls w"
  "newTransactionCalls (GetTransactionCall s # w) = newTransactionCalls w"
  "newTransactionCalls (GetLedgerEntriesCall ks # w) = newTransactionCalls w"
  "newTransactionCalls (Sleep d # w) = newTransactionCalls w"
  by (simp_all add: newTransactionCalls_def)

subsection \<open>The address\<close>

lemma GetAddress_cached: "address c = Some a \<Longrightarrow> GetAddress env c = (Inr a, c)"
  by (simp add: GetAddress_def)

lemma GetAddress_caches: "GetAddress env c = (Inr a, c') \<Longrightarrow> address c' = Some a"
  by (auto simp: GetAddress_def Let_def split: option.splits sum.splits if_splits)

text \<open>
  C1. On a contract with a source account and a client and no cached address,
  \<^verbatim>\<open>GetAddress\<close> returns what the derivation of the specification returns on the
  account identifier of the source, the salt and the passphrase of the client; an
  address it returns is a contract address holding the digest of an encoding, and it
  is cached in the contract. So two contracts that agree on the triple get the same
  result.
\<close>

theorem GetAddress_derives:
  assumes "address c = None" and "source c = Some src" and "client c = Some cl"
  shows "fst (GetAddress env c) = deriveAddress env (GetAccountID src) (salt c) (PassPhrase cl) \<and>
    (\<forall>a. fst (GetAddress env c) = Inr a \<longrightarrow>
       (\<exists>encoding. a = ScAddressTypeContract (Sum256 env encoding)) \<and>
       snd (GetAddress env c) = c\<lparr>address := Some a\<rparr>) \<and>
    (\<forall>c' src' cl'. address c' = None \<and> source c' = Some src' \<and> client c' = Some cl' \<and>
       GetAccountID src' = GetAccountID src \<and> salt c' = salt c \<and> PassPhrase cl' = PassPhrase cl
       \<longrightarrow> fst (GetAddress env c') = fst (GetAddress env c))"
proof -
  have derive: "fst (GetAddress env k) = deriveAddress env (GetAccountID s) (salt k) (PassPhrase l)"
    if "address k = None" "source k = Some s" "client k = Some l" for k s l
    using that
    by (simp add: GetAddress_def getContractIdPreimage_def deriveAddress_def len32_def Let_def
        split: sum.splits)
  have cache: "(\<exists>encoding. a = ScAddressTypeContract (Sum256 env encoding)) \<and>
      snd (GetAddress env c) = c\<lparr>address := Some a\<rparr>"
    if "fst (GetAddress env c) = Inr a" for a
    using that assms
    by (auto simp: GetAddress_def getContractIdPreimage_def len32_def Let_def
        split: sum.splits)
  show ?thesis
    using derive [OF assms] cache by (auto simp: derive)
qed

theorem GetAddress_derives_witness:
  "address contract0 = None \<and> source contract0 = Some (Account ''GABC'') \<and>
   client contract0 = Some client0 \<and>
   fst (GetAddress env0 contract0) = Inr (ScAddressTypeContract 20) \<and>
   snd (GetAddress env0 contract0) = contract0\<lparr>address := Some (ScAddressTypeContract 20)\<rparr> \<and>
   fst (GetAddress env0 (Wasm env0 ''other'' contract0)) = fst (GetAddress env0 contract0)"
proof -
  have h: "address contract0 = None" "source contract0 = Some (Account ''GABC'')"
    "client contract0 = Some client0"
    by (simp_all add: contract0_defs)
  have d: "deriveAddress env0 ''GABC'' (salt contract0) (PassPhrase client0) =
      Inr (ScAddressTypeContract 20)"
    by (simp add: deriveAddress_def env0_def contract0_defs)
  have o: "address (Wasm env0 ''other'' contract0) = None"
    "source (Wasm env0 ''other'' contract0) = Some (Account ''GABC'')"
    "client (Wasm env0 ''other'' contract0) = Some client0"
    "salt (Wasm env0 ''other'' contract0) = salt contract0"
    by (simp_all add: contract0_defs)
  from GetAddress_derives [OF h, of env0] d o show ?thesis
    using h by auto
qed

text \<open>
  C10. Once the address of a contract is set, \<^verbatim>\<open>GetAddress\<close> returns it and leaves the
  contract as it is, whatever the source, the client and the salt are; so it does
  after the \<^verbatim>\<open>Address\<close> setter, and a second call after a successful one returns the
  same address.
\<close>

theorem GetAddress_returns_cached:
  "(address c = Some a \<longrightarrow> GetAddress env c = (Inr a, c)) \<and>
   GetAddress env (Address_c a c) = (Inr a, Address_c a c) \<and>
   (GetAddress env c = (Inr a, c') \<longrightarrow> GetAddress env c' = (Inr a, c'))"
  by (auto simp: GetAddress_cached Address_c_def dest: GetAddress_caches)

theorem GetAddress_returns_cached_witness:
  "address (Address_c (ScAddressTypeContract 1) NewContract) = Some (ScAddressTypeContract 1) \<and>
   GetAddress env0 (Address_c (ScAddressTypeContract 1) NewContract) =
     (Inr (ScAddressTypeContract 1), Address_c (ScAddressTypeContract 1) NewContract) \<and>
   GetAddress env0 contract0 =
     (Inr (ScAddressTypeContract 20), contract0\<lparr>address := Some (ScAddressTypeContract 20)\<rparr>) \<and>
   GetAddress env0 (contract0\<lparr>address := Some (ScAddressTypeContract 20)\<rparr>) =
     (Inr (ScAddressTypeContract 20), contract0\<lparr>address := Some (ScAddressTypeContract 20)\<rparr>)"
proof -
  have a: "address (Address_c (ScAddressTypeContract 1) NewContract) = Some (ScAddressTypeContract 1)"
    by (simp add: Address_c_def)
  have g: "GetAddress env0 contract0 =
     (Inr (ScAddressTypeContract 20), contract0\<lparr>address := Some (ScAddressTypeContract 20)\<rparr>)"
    by (simp add: GetAddress_def getContractIdPreimage_def len32_def env0_def contract0_defs
        Let_def)
  from GetAddress_returns_cached
         [of "Address_c (ScAddressTypeContract 1) NewContract" "ScAddressTypeContract 1" env0]
       GetAddress_returns_cached
         [of contract0 "ScAddressTypeContract 20" env0
            "contract0\<lparr>address := Some (ScAddressTypeContract 20)\<rparr>"]
  show ?thesis using a g by simp
qed

subsection \<open>The builder\<close>

lemma SimulateTransaction_calls:
  "SimulateTransaction env tx w = (r, w') \<Longrightarrow> newTransactionCalls w' = newTransactionCalls w"
  by (auto simp: SimulateTransaction_def split: sum.splits)

lemma SendTransaction_calls:
  "newTransactionCalls (snd (SendTransaction env tx w)) = newTransactionCalls w"
  by (auto simp: SendTransaction_def split: sum.splits)

lemma buildParams_flag_off:
  "buildParams (t\<lparr>build := (build t)\<lparr>incrementSequenceNum := False\<rparr>\<rparr>) =
   (buildParams t)\<lparr>IncrementSequenceNum := False\<rparr>"
  by (simp add: buildParams_def)

lemma Authorization_flag:
  "Authorization auth t = Inr t' \<Longrightarrow>
   incrementSequenceNum (build t') = incrementSequenceNum (build t)"
  by (auto simp: Authorization_def split: list.splits Operation.splits)

lemma SorobanData_t_flag:
  "incrementSequenceNum (build (SorobanData_t d t)) = incrementSequenceNum (build t)"
  by (auto simp: SorobanData_t_def split: list.splits Operation.splits)

lemma Simulate_calls:
  "newTransactionCalls (snd (snd (Simulate env t w))) =
   newTransactionCalls w @ [(buildParams t)\<lparr>IncrementSequenceNum := False\<rparr>]"
  by (auto simp: Simulate_def Let_def buildTx_def buildParams_flag_off
      split: sum.splits option.splits prod.splits dest!: SimulateTransaction_calls)

lemma Simulate_flag:
  "incrementSequenceNum (build (fst (snd (Simulate env t w)))) = incrementSequenceNum (build t)"
  by (auto simp: Simulate_def Let_def SorobanData_t_flag BaseFee_t_def
      split: sum.splits option.splits prod.splits dest!: Authorization_flag)

lemma Send_calls:
  "newTransactionCalls (snd (Send env t w)) = newTransactionCalls w @ [buildParams t]"
  by (auto simp: Send_def buildTx_def SendTransaction_calls
      split: sum.splits option.splits prod.splits)

lemma setters_keep_flag:
  "incrementSequenceNum (build (Client_t cl t)) = incrementSequenceNum (build t)"
  "incrementSequenceNum (build (SourceAccount_t s t)) = incrementSequenceNum (build t)"
  "incrementSequenceNum (build (Operation_t ops t)) = incrementSequenceNum (build t)"
  "incrementSequenceNum (build (Signer ks t)) = incrementSequenceNum (build t)"
  "incrementSequenceNum (build (TimeBounds_t tb t)) = incrementSequenceNum (build t)"
  "incrementSequenceNum (build (LedgerBounds_t lb t)) = incrementSequenceNum (build t)"
  "incrementSequenceNum (build (MinSequenceNumber mn t)) = incrementSequenceNum (build t)"
  "incrementSequenceNum (build (MinSequenceNumberAge ma t)) = incrementSequenceNum (build t)"
  "incrementSequenceNum (build (MinSequenceNumberLedgerGap mg t)) = incrementSequenceNum (build t)"
  "incrementSequenceNum (build (ExtraSigner es t)) = incrementSequenceNum (build t)"
  "incrementSequenceNum (build (Memo_t m t)) = incrementSequenceNum (build t)"
  "incrementSequenceNum (build (BaseFee_t f t)) = incrementSequenceNum (build t)"
  by (simp_all add: Client_t_def SourceAccount_t_def Operation_t_def Signer_def TimeBounds_t_def
      LedgerBounds_t_def MinSequenceNumber_def MinSequenceNumberAge_def
      MinSequenceNumberLedgerGap_def ExtraSigner_def Memo_t_def BaseFee_t_def)

text \<open>
  C4. \<^verbatim>\<open>Simulate\<close> asks for exactly one transaction, with the parameters of the builder
  and \<^verbatim>\<open>IncrementSequenceNum\<close> false; the builder it leaves has the flag it had
  before the call. A \<^verbatim>\<open>Send\<close> on that builder, in any later state of the world, asks
  for exactly one transaction with the parameters of the builder, whose flag is the
  one from before \<^verbatim>\<open>Simulate\<close>. That flag is true in a new builder and in every
  builder the contract makes (no setter changes it, see \<open>setters_keep_flag\<close>).
\<close>

theorem Simulate_keeps_sequence_number:
  "(case Simulate env t w of
      (r, t1, w1) \<Rightarrow>
        newTransactionCalls w1 =
          newTransactionCalls w @ [(buildParams t)\<lparr>IncrementSequenceNum := False\<rparr>] \<and>
        incrementSequenceNum (build t1) = incrementSequenceNum (build t) \<and>
        (case Send env t1 w2 of
           (r3, w3) \<Rightarrow>
             newTransactionCalls w3 = newTransactionCalls w2 @ [buildParams t1] \<and>
             IncrementSequenceNum (buildParams t1) = incrementSequenceNum (build t))) \<and>
   incrementSequenceNum (build NewTransctionBuilder) \<and>
   incrementSequenceNum (build (contractTransaction env c op w))"
proof -
  obtain r t1 w1 where s: "Simulate env t w = (r, t1, w1)"
    by (cases "Simulate env t w") auto
  obtain r3 w3 where d: "Send env t1 w2 = (r3, w3)"
    by (cases "Send env t1 w2") auto
  have "newTransactionCalls w1 =
      newTransactionCalls w @ [(buildParams t)\<lparr>IncrementSequenceNum := False\<rparr>]"
    using Simulate_calls [of env t w] s by simp
  moreover have f: "incrementSequenceNum (build t1) = incrementSequenceNum (build t)"
    using Simulate_flag [of env t w] s by simp
  moreover have "newTransactionCalls w3 = newTransactionCalls w2 @ [buildParams t1]"
    using Send_calls [of env t1 w2] d by simp
  moreover have "IncrementSequenceNum (buildParams t1) = incrementSequenceNum (build t)"
    using f by (simp add: buildParams_def)
  moreover have "incrementSequenceNum (build NewTransctionBuilder)"
    by (simp add: NewTransctionBuilder_def)
  moreover have "incrementSequenceNum (build (contractTransaction env c op w))"
    by (simp add: contractTransaction_def setters_keep_flag NewTransctionBuilder_def)
  ultimately show ?thesis
    using s d by simp
qed

text \<open>
  C9. On a builder with no operation, \<^verbatim>\<open>Authorization\<close> panics on the index
  \<^verbatim>\<open>operations[0]\<close>, where \<^verbatim>\<open>SorobanData\<close>, which checks the length, leaves the
  builder as it is.
\<close>

theorem Authorization_panics_on_no_operation:
  "Authorization auth NewTransctionBuilder = Inl (Panic index_out_of_range) \<and>
   SorobanData_t d NewTransctionBuilder = NewTransctionBuilder"
  by (simp add: Authorization_def SorobanData_t_def NewTransctionBuilder_def)

subsection \<open>The completion poller\<close>

lemma getTransactionCalls_append [simp]:
  "getTransactionCalls (a @ b) = getTransactionCalls a @ getTransactionCalls b"
  by (simp add: getTransactionCalls_def)

lemma getTransactionCalls_simps [simp]:
  "getTransactionCalls [] = []"
  "getTransactionCalls (NewTransactionCall p # w) = getTransactionCalls w"
  "getTransactionCalls (SimulateTransactionCall s # w) = getTransactionCalls w"
  "getTransactionCalls (SendTransactionCall s # w) = getTransactionCalls w"
  "getTransactionCalls (GetTransactionCall s # w) = s # getTransactionCalls w"
  "getTransactionCalls (GetLedgerEntriesCall ks # w) = getTransactionCalls w"
  "getTransactionCalls (Sleep d # w) = getTransactionCalls w"
  by (simp_all add: getTransactionCalls_def)

lemma sleeps_append [simp]: "sleeps (a @ b) = sleeps a @ sleeps b"
  by (simp add: sleeps_def)

lemma sleeps_simps [simp]:
  "sleeps [] = []"
  "sleeps (GetTransactionCall s # w) = sleeps w"
  "sleeps (Sleep d # w) = d # sleeps w"
  by (simp_all add: sleeps_def)

lemma polled_queries: "getTransactionCalls (polled hash k) = replicate k hash"
  by (induction k) (simp_all add: replicate_append_same)

lemma polled_sleeps: "sleeps (polled hash k) = map (\<lambda>i. int i * 2 * Second) [0..<k]"
  by (induction k) simp_all

lemma loop_step_not_found:
  assumes "i < 5" and "CallGetTransaction env w hash = Inr r" and "Status r = ''NOT_FOUND''"
  shows "waitCompletedTransaction_loop env hash i w =
    waitCompletedTransaction_loop env hash (i + 1)
      (w @ [GetTransactionCall hash, Sleep (i * 2 * Second)])"
  using assms
  by (subst waitCompletedTransaction_loop.simps) (simp add: GetTransaction_def)

lemma loop_step_found:
  assumes "i < 5" and "CallGetTransaction env w hash = Inr r" and "Status r \<noteq> ''NOT_FOUND''"
  shows "waitCompletedTransaction_loop env hash i w = (Inr (Some r), w @ [GetTransactionCall hash])"
  using assms
  by (subst waitCompletedTransaction_loop.simps) (simp add: GetTransaction_def)

lemma loop_step_error:
  assumes "i < 5" and "CallGetTransaction env w hash = Inl e"
  shows "waitCompletedTransaction_loop env hash i w = (Inl (Error e), w @ [GetTransactionCall hash])"
  using assms
  by (subst waitCompletedTransaction_loop.simps) (simp add: GetTransaction_def)

lemma loop_exhausted:
  "\<not> i < 5 \<Longrightarrow> waitCompletedTransaction_loop env hash i w = (Inr None, w)"
  by (subst waitCompletedTransaction_loop.simps) simp

lemma loop_prefix:
  assumes "k \<le> 5"
    and "\<forall>j<k. \<exists>r. CallGetTransaction env (w @ polled hash j) hash = Inr r \<and>
           Status r = ''NOT_FOUND''"
  shows "waitCompletedTransaction_loop env hash 0 w =
    waitCompletedTransaction_loop env hash (int k) (w @ polled hash k)"
  using assms
proof (induction k)
  case 0
  then show ?case by simp
next
  case (Suc k)
  then obtain r where r: "CallGetTransaction env (w @ polled hash k) hash = Inr r"
    "Status r = ''NOT_FOUND''"
    by blast
  have "waitCompletedTransaction_loop env hash 0 w =
      waitCompletedTransaction_loop env hash (int k) (w @ polled hash k)"
    using Suc by simp
  also have "\<dots> = waitCompletedTransaction_loop env hash (int k + 1)
      ((w @ polled hash k) @ [GetTransactionCall hash, Sleep (int k * 2 * Second)])"
    using Suc.prems(1) r by (intro loop_step_not_found) simp_all
  finally show ?case by (simp add: add.commute)
qed

lemma loop_queries_bound:
  "length (getTransactionCalls (snd (waitCompletedTransaction_loop env hash i w))) \<le>
   length (getTransactionCalls w) + nat (5 - i)"
proof (induction env hash i w rule: waitCompletedTransaction_loop.induct)
  case (1 env hash i w)
  show ?case
  proof (cases "i < 5")
    case False
    then show ?thesis by (simp add: loop_exhausted)
  next
    case True
    show ?thesis
    proof (cases "CallGetTransaction env w hash")
      case (Inl e)
      with True show ?thesis by (simp add: loop_step_error)
    next
      case (Inr r)
      show ?thesis
      proof (cases "Status r = ''NOT_FOUND''")
        case False
        with True Inr show ?thesis by (simp add: loop_step_found)
      next
        case nf: True
        have g: "GetTransaction env hash w = (Inr r, w @ [GetTransactionCall hash])"
          using Inr by (simp add: GetTransaction_def)
        have "length (getTransactionCalls (snd (waitCompletedTransaction_loop env hash (i + 1)
                ((w @ [GetTransactionCall hash]) @ [Sleep (i * 2 * Second)])))) \<le>
              length (getTransactionCalls ((w @ [GetTransactionCall hash]) @ [Sleep (i * 2 * Second)]))
                + nat (5 - (i + 1))"
          using "1.IH" [OF True g [symmetric] refl] nf by simp
        then show ?thesis
          using True Inr nf by (simp add: loop_step_not_found)
      qed
    qed
  qed
qed

lemma envPoll_answer:
  "CallGetTransaction (envPoll n) w h =
   (if length (getTransactionCalls w) < n then Inr notFound else Inr success)"
  by (simp add: envPoll_def)

text \<open>
  C7 as amended. The number of attempts is the constant 5 of the source, not a
  parameter. The poller, from a trace \<open>w\<close>: when the first \<open>k < 5\<close> queries of the hash
  answer \<^verbatim>\<open>NOT_FOUND\<close> and the next one answers another status, it returns that answer
  at once, having queried \<open>k + 1\<close> times and slept \<open>i * 2\<close> seconds after attempt
  \<open>i < k\<close>; when five queries answer \<^verbatim>\<open>NOT_FOUND\<close> it returns no result and no error
  after exactly five queries; and it never queries more than five times.
\<close>

theorem waitCompletedTransaction_polls:
  "(\<forall>k r. k < 5 \<and>
      (\<forall>j<k. \<exists>r'. CallGetTransaction env (w @ polled hash j) hash = Inr r' \<and>
         Status r' = ''NOT_FOUND'') \<and>
      CallGetTransaction env (w @ polled hash k) hash = Inr r \<and> Status r \<noteq> ''NOT_FOUND'' \<longrightarrow>
      waitCompletedTransaction env (Some cl) hash w =
        (Inr (Some r), w @ polled hash k @ [GetTransactionCall hash])) \<and>
   ((\<forall>j<5. \<exists>r'. CallGetTransaction env (w @ polled hash j) hash = Inr r' \<and>
         Status r' = ''NOT_FOUND'') \<longrightarrow>
      waitCompletedTransaction env (Some cl) hash w = (Inr None, w @ polled hash 5)) \<and>
   (\<forall>k. getTransactionCalls (polled hash k) = replicate k hash \<and>
      sleeps (polled hash k) = map (\<lambda>i. int i * 2 * Second) [0..<k]) \<and>
   length (getTransactionCalls (snd (waitCompletedTransaction env c hash w))) \<le>
     length (getTransactionCalls w) + 5"
proof (intro conjI allI impI)
  fix k r
  assume a: "k < 5 \<and>
      (\<forall>j<k. \<exists>r'. CallGetTransaction env (w @ polled hash j) hash = Inr r' \<and>
         Status r' = ''NOT_FOUND'') \<and>
      CallGetTransaction env (w @ polled hash k) hash = Inr r \<and> Status r \<noteq> ''NOT_FOUND''"
  then have "waitCompletedTransaction_loop env hash 0 w =
      waitCompletedTransaction_loop env hash (int k) (w @ polled hash k)"
    by (intro loop_prefix) simp_all
  also have "\<dots> = (Inr (Some r), (w @ polled hash k) @ [GetTransactionCall hash])"
    using a by (intro loop_step_found) simp_all
  finally show "waitCompletedTransaction env (Some cl) hash w =
        (Inr (Some r), w @ polled hash k @ [GetTransactionCall hash])"
    by (simp add: waitCompletedTransaction_def)
next
  assume "\<forall>j<5. \<exists>r'. CallGetTransaction env (w @ polled hash j) hash = Inr r' \<and>
         Status r' = ''NOT_FOUND''"
  then have "waitCompletedTransaction_loop env hash 0 w =
      waitCompletedTransaction_loop env hash (int 5) (w @ polled hash 5)"
    by (intro loop_prefix) simp_all
  then show "waitCompletedTransaction env (Some cl) hash w = (Inr None, w @ polled hash 5)"
    by (simp add: waitCompletedTransaction_def loop_exhausted)
next
  fix k show "getTransactionCalls (polled hash k) = replicate k hash"
    by (rule polled_queries)
next
  fix k show "sleeps (polled hash k) = map (\<lambda>i. int i * 2 * Second) [0..<k]"
    by (rule polled_sleeps)
next
  show "length (getTransactionCalls (snd (waitCompletedTransaction env c hash w))) \<le>
     length (getTransactionCalls w) + 5"
    using loop_queries_bound [of env hash 0 w]
    by (simp add: waitCompletedTransaction_def split: option.splits)
qed


theorem waitCompletedTransaction_polls_witness:
  "waitCompletedTransaction (envPoll 2) (Some client0) ''h'' [] =
     (Inr (Some success),
      [GetTransactionCall ''h'', Sleep 0, GetTransactionCall ''h'', Sleep 2000000000,
       GetTransactionCall ''h'']) \<and>
   waitCompletedTransaction (envPoll 5) (Some client0) ''h'' [] =
     (Inr None,
      [GetTransactionCall ''h'', Sleep 0, GetTransactionCall ''h'', Sleep 2000000000,
       GetTransactionCall ''h'', Sleep 4000000000, GetTransactionCall ''h'', Sleep 6000000000,
       GetTransactionCall ''h'', Sleep 8000000000]) \<and>
   length (getTransactionCalls (snd (waitCompletedTransaction (envPoll 5) (Some client0) ''h'' [])))
     \<le> 5"
proof -
  have nf: "Status notFound = ''NOT_FOUND''" and ok: "Status success \<noteq> ''NOT_FOUND''"
    by (simp_all add: notFound_def success_def)
  have first: "\<forall>j<2. \<exists>r'. CallGetTransaction (envPoll 2) ([] @ polled ''h'' j) ''h'' = Inr r' \<and>
      Status r' = ''NOT_FOUND''"
    by (simp add: envPoll_answer polled_queries nf)
  have third: "CallGetTransaction (envPoll 2) ([] @ polled ''h'' 2) ''h'' = Inr success"
    by (simp add: envPoll_answer polled_queries)
  have all: "\<forall>j<5. \<exists>r'. CallGetTransaction (envPoll 5) ([] @ polled ''h'' j) ''h'' = Inr r' \<and>
      Status r' = ''NOT_FOUND''"
    by (simp add: envPoll_answer polled_queries nf)
  have p2: "polled ''h'' 2 =
      [GetTransactionCall ''h'', Sleep 0, GetTransactionCall ''h'', Sleep 2000000000]"
    by (simp add: eval_nat_numeral Second_def)
  have p5: "polled ''h'' 5 =
      [GetTransactionCall ''h'', Sleep 0, GetTransactionCall ''h'', Sleep 2000000000,
       GetTransactionCall ''h'', Sleep 4000000000, GetTransactionCall ''h'', Sleep 6000000000,
       GetTransactionCall ''h'', Sleep 8000000000]"
    by (simp add: eval_nat_numeral Second_def)
  have a: "waitCompletedTransaction (envPoll 2) (Some client0) ''h'' [] =
     (Inr (Some success), [] @ polled ''h'' 2 @ [GetTransactionCall ''h''])"
    using waitCompletedTransaction_polls [of "envPoll 2" "[]" "''h''" client0] first third ok by simp
  have b: "waitCompletedTransaction (envPoll 5) (Some client0) ''h'' [] =
     (Inr None, [] @ polled ''h'' 5)"
    using waitCompletedTransaction_polls [of "envPoll 5" "[]" "''h''" client0] all by blast
  show ?thesis
    using a b by (simp add: p2 p5)
qed


lemma waitCompletedTransaction_envPoll5:
  "waitCompletedTransaction (envPoll 5) (Some client0) ''h'' [] = (Inr None, polled ''h'' 5)"
proof -
  have "\<forall>j<5. \<exists>r. CallGetTransaction (envPoll 5) ([] @ polled ''h'' j) ''h'' = Inr r \<and>
      Status r = ''NOT_FOUND''"
    by (simp add: envPoll_answer polled_queries notFound_def)
  then have "waitCompletedTransaction_loop (envPoll 5) ''h'' 0 [] =
      waitCompletedTransaction_loop (envPoll 5) ''h'' (int 5) ([] @ polled ''h'' 5)"
    by (intro loop_prefix) simp_all
  then show ?thesis
    by (simp add: waitCompletedTransaction_def loop_exhausted)
qed

text \<open>
  C7 as stated fails: the poller has no bound \<open>maxAttempts\<close> to obey. Read at
  \<open>maxAttempts = 3\<close>, on a network that answers \<^verbatim>\<open>NOT_FOUND\<close> to every query, the claim
  promises the absent result after exactly three queries; the poller queries a fourth
  and a fifth time.
\<close>

theorem waitCompletedTransaction_ignores_maxAttempts:
  "\<not> (\<forall>maxAttempts env cl hash w.
        (\<forall>j<maxAttempts. \<exists>r. CallGetTransaction env (w @ polled hash j) hash = Inr r \<and>
           Status r = ''NOT_FOUND'') \<longrightarrow>
        waitCompletedTransaction env (Some cl) hash w = (Inr None, w @ polled hash maxAttempts) \<and>
        length (getTransactionCalls (snd (waitCompletedTransaction env (Some cl) hash w))) \<le>
          length (getTransactionCalls w) + maxAttempts)"
proof
  assume a: "\<forall>maxAttempts env cl hash w.
        (\<forall>j<maxAttempts. \<exists>r. CallGetTransaction env (w @ polled hash j) hash = Inr r \<and>
           Status r = ''NOT_FOUND'') \<longrightarrow>
        waitCompletedTransaction env (Some cl) hash w = (Inr None, w @ polled hash maxAttempts) \<and>
        length (getTransactionCalls (snd (waitCompletedTransaction env (Some cl) hash w))) \<le>
          length (getTransactionCalls w) + maxAttempts"
  have h: "\<forall>j<3. \<exists>r. CallGetTransaction (envPoll 5) ([] @ polled ''h'' j) ''h'' = Inr r \<and>
      Status r = ''NOT_FOUND''"
    by (simp add: envPoll_answer polled_queries notFound_def)
  from a h have
    "length (getTransactionCalls (snd (waitCompletedTransaction (envPoll 5) (Some client0) ''h'' [])))
       \<le> length (getTransactionCalls []) + 3"
    by blast
  then show False
    by (simp add: waitCompletedTransaction_envPoll5 polled_queries)
qed

subsection \<open>Simulation folded into the builder\<close>

lemma decodeAuth_appends:
  "decodeAuth env xs acc = Inr auth \<Longrightarrow>
   \<exists>new. auth = acc @ new \<and> map (UnmarshalAuthorizationEntry env) xs = map Inr new"
proof (induction xs arbitrary: acc)
  case Nil
  then show ?case by simp
next
  case (Cons x xs)
  then obtain entry where e: "UnmarshalAuthorizationEntry env x = Inr entry"
    and d: "decodeAuth env xs (acc @ [entry]) = Inr auth"
    by (auto split: sum.splits)
  from Cons.IH [OF d] obtain new where "auth = (acc @ [entry]) @ new"
    "map (UnmarshalAuthorizationEntry env) xs = map Inr new"
    by blast
  then have "auth = acc @ (entry # new) \<and>
      map (UnmarshalAuthorizationEntry env) (x # xs) = map Inr (entry # new)"
    using e by simp
  then show ?case by blast
qed

lemma decodeResults_appends:
  "decodeResults env rs acc = Inr auth \<Longrightarrow>
   \<exists>new. auth = acc @ new \<and>
     map (UnmarshalAuthorizationEntry env) (concat (map resAuth rs)) = map Inr new"
proof (induction rs arbitrary: acc)
  case Nil
  then show ?case by simp
next
  case (Cons r rs)
  then obtain mid where m: "decodeAuth env (resAuth r) acc = Inr mid"
    and d: "decodeResults env rs mid = Inr auth"
    by (auto split: sum.splits)
  from decodeAuth_appends [OF m] obtain new1 where n1: "mid = acc @ new1"
    "map (UnmarshalAuthorizationEntry env) (resAuth r) = map Inr new1"
    by blast
  from Cons.IH [OF d] obtain new2 where n2: "auth = mid @ new2"
    "map (UnmarshalAuthorizationEntry env) (concat (map resAuth rs)) = map Inr new2"
    by blast
  have "auth = acc @ (new1 @ new2) \<and>
      map (UnmarshalAuthorizationEntry env) (concat (map resAuth (r # rs))) = map Inr (new1 @ new2)"
    using n1 n2 by simp
  then show ?case by blast
qed

lemma Simulate_success:
  assumes "Simulate env t w = (Inr res, t', w')"
  shows "\<exists>auth data. decodeResults env (Results res) [] = Inr auth \<and>
    UnmarshalTransactionData env (TransactionData res) = Inr data \<and>
    Authorization auth (SorobanData_t data (BaseFee_t (MinResourceFee res + MinBaseFee) t)) = Inr t'"
  using assms
  by (auto simp: Simulate_def Let_def split: sum.splits option.splits prod.splits)

lemma Authorization_baseFee:
  "Authorization auth t = Inr t' \<Longrightarrow> baseFee (build t') = baseFee (build t)"
  by (auto simp: Authorization_def split: list.splits Operation.splits)

lemma SorobanData_t_baseFee: "baseFee (build (SorobanData_t d t)) = baseFee (build t)"
  by (auto simp: SorobanData_t_def split: list.splits Operation.splits)

lemma Simulate_restoreBuilder0:
  "Simulate env0 restoreBuilder0 [] =
     (Inr simulated0,
      SorobanData_t (SorobanTransactionData [] [] ''A'') (BaseFee_t 107 restoreBuilder0),
      [NewTransactionCall ((buildParams restoreBuilder0)\<lparr>IncrementSequenceNum := False\<rparr>),
       SimulateTransactionCall ''tx''])"
  by (simp add: Simulate_defs env0_def restoreBuilder0_def builder_defs contract0_defs
      simulated0_def)

lemma Simulate_invokeBuilder0:
  "\<exists>t' w'. Simulate env0 invokeBuilder0 [] = (Inr simulated0, t', w')"
  by (simp add: Simulate_defs env0_def invokeBuilder0_def builder_defs contract0_defs
      simulated0_def invoke0_defs)

text \<open>
  C3 as amended. When \<^verbatim>\<open>Simulate\<close> returns a result, the base fee of the builder is
  \<^verbatim>\<open>MinResourceFee + MinBaseFee\<close> in \<^verbatim>\<open>int64\<close> arithmetic (the sum of the two numbers
  when it fits), and every authorization entry and the transaction data of the result
  decode. When the leading operation of the builder is an invoke-host-function
  operation, its authorization entries are then the decoded entries of all the
  per-operation results, in order, and its extension holds the decoded transaction
  data; a leading restore-footprint operation gets the transaction data and no
  authorization entry, and any other leading operation leaves the operations as they
  were.
\<close>

theorem Simulate_folds_result:
  assumes "Simulate env t w = (Inr res, t', w')"
  shows "baseFee (build t') = MinResourceFee res + MinBaseFee \<and>
    (sint (MinResourceFee res) + 100 < 2 ^ 63 \<longrightarrow>
       sint (baseFee (build t')) = sint (MinResourceFee res) + 100) \<and>
    (\<exists>auth data.
       map (UnmarshalAuthorizationEntry env) (concat (map resAuth (Results res))) = map Inr auth \<and>
       UnmarshalTransactionData env (TransactionData res) = Inr data \<and>
       (case operations (build t) of
          [] \<Rightarrow> False
        | op # ops \<Rightarrow>
            (case op of
               InvokeHostFunction hf a sa ext \<Rightarrow>
                 operations (build t') =
                   InvokeHostFunction hf auth sa (TransactionExt 1 (Some data)) # ops \<and>
                 leadingAuth t' = auth
             | RestoreFootprint sa ext \<Rightarrow>
                 operations (build t') = RestoreFootprint sa (TransactionExt 1 (Some data)) # ops \<and>
                 leadingAuth t' = []
             | OtherOperation k \<Rightarrow>
                 operations (build t') = operations (build t) \<and> leadingAuth t' = [])))"
proof -
  from Simulate_success [OF assms] obtain auth data where
    d: "decodeResults env (Results res) [] = Inr auth" and
    u: "UnmarshalTransactionData env (TransactionData res) = Inr data" and
    a: "Authorization auth (SorobanData_t data (BaseFee_t (MinResourceFee res + MinBaseFee) t)) =
          Inr t'"
    by blast
  have fee: "baseFee (build t') = MinResourceFee res + MinBaseFee"
    using Authorization_baseFee [OF a] by (simp add: SorobanData_t_baseFee BaseFee_t_def)
  have m: "map (UnmarshalAuthorizationEntry env) (concat (map resAuth (Results res))) = map Inr auth"
    using decodeResults_appends [OF d] by auto
  have ops: "(case operations (build t) of
          [] \<Rightarrow> False
        | op # ops \<Rightarrow>
            (case op of
               InvokeHostFunction hf a sa ext \<Rightarrow>
                 operations (build t') =
                   InvokeHostFunction hf auth sa (TransactionExt 1 (Some data)) # ops \<and>
                 leadingAuth t' = auth
             | RestoreFootprint sa ext \<Rightarrow>
                 operations (build t') = RestoreFootprint sa (TransactionExt 1 (Some data)) # ops \<and>
                 leadingAuth t' = []
             | OtherOperation k \<Rightarrow>
                 operations (build t') = operations (build t) \<and> leadingAuth t' = []))"
    using a
    by (auto simp: Authorization_def SorobanData_t_def BaseFee_t_def leadingAuth_def
        split: list.splits Operation.splits)
  have s: "sint (MinResourceFee res) + 100 < 2 ^ 63 \<Longrightarrow>
       sint (MinResourceFee res + MinBaseFee) = sint (MinResourceFee res) + 100"
  proof -
    assume b: "sint (MinResourceFee res) + 100 < 2 ^ 63"
    have lo: "- (2 ^ 63) \<le> sint (MinResourceFee res)"
      using sint_ge [of "MinResourceFee res"] by simp
    have "sint (MinResourceFee res + 100) =
        signed_take_bit 63 (sint (MinResourceFee res) + sint (100 :: 64 word))"
      by (simp add: sint_word_add)
    also have "\<dots> = sint (MinResourceFee res) + 100"
      using b lo by (simp add: signed_take_bit_int_eq_self)
    finally have "sint (MinResourceFee res + 100) = sint (MinResourceFee res) + 100" .
    then show ?thesis by (simp add: MinBaseFee_def)
  qed
  show ?thesis
    using fee m u ops s by auto
qed



theorem Simulate_folds_result_witness:
  "fst (Simulate env0 invokeBuilder0 []) = Inr simulated0 \<and>
   baseFee (build (fst (snd (Simulate env0 invokeBuilder0 [])))) = 107 \<and>
   leadingAuth (fst (snd (Simulate env0 invokeBuilder0 []))) =
     [SorobanAuthorizationEntry ''a1'', SorobanAuthorizationEntry ''a2'']"
proof -
  from Simulate_invokeBuilder0 obtain t' w' where
    e: "Simulate env0 invokeBuilder0 [] = (Inr simulated0, t', w')"
    by blast
  have o: "operations (build invokeBuilder0) =
      [InvokeHostFunction
         (HostFunctionTypeInvokeContract (ScAddressTypeContract 20) ''hello'' [ScvSymbol ''World''])
         [] ''GABC'' (TransactionExt 0 None)]"
    by (simp add: invokeBuilder0_def builder_defs invoke0_defs)
  have u: "map (UnmarshalAuthorizationEntry env0) (concat (map resAuth (Results simulated0))) =
      map Inr [SorobanAuthorizationEntry ''a1'', SorobanAuthorizationEntry ''a2'']"
    by (simp add: env0_def simulated0_def)
  have f: "MinResourceFee simulated0 + MinBaseFee = 107"
    by (simp add: simulated0_def MinBaseFee_def)
  from Simulate_folds_result [OF e] o u f show ?thesis
    using e by (auto simp: inj_map_eq_map)
qed

text \<open>
  C3 as stated fails: on a builder whose leading operation is a restore-footprint
  operation, as \<^verbatim>\<open>Restore\<close> builds it, \<^verbatim>\<open>Simulate\<close> returns a result with two
  authorization entries and attaches none.
\<close>

theorem Simulate_attaches_no_auth_to_restore:
  "\<not> (\<forall>env t w res t' w'.
        Simulate env t w = (Inr res, t', w') \<longrightarrow>
        baseFee (build t') = MinResourceFee res + MinBaseFee \<and>
        map (UnmarshalAuthorizationEntry env) (concat (map resAuth (Results res))) =
          map Inr (leadingAuth t'))"
proof
  assume a: "\<forall>env t w res t' w'.
        Simulate env t w = (Inr res, t', w') \<longrightarrow>
        baseFee (build t') = MinResourceFee res + MinBaseFee \<and>
        map (UnmarshalAuthorizationEntry env) (concat (map resAuth (Results res))) =
          map Inr (leadingAuth t')"
  have l: "leadingAuth
      (SorobanData_t (SorobanTransactionData [] [] ''A'') (BaseFee_t 107 restoreBuilder0)) = []"
    by (simp add: leadingAuth_def SorobanData_t_def restoreBuilder0_def builder_defs)
  from a Simulate_restoreBuilder0 have
    "map (UnmarshalAuthorizationEntry env0) (concat (map resAuth (Results simulated0))) =
     map Inr (leadingAuth
       (SorobanData_t (SorobanTransactionData [] [] ''A'') (BaseFee_t 107 restoreBuilder0)))"
    by blast
  then show False
    by (simp add: l simulated0_def)
qed

subsection \<open>Liveness, Install and Invoke\<close>

lemma sendTransactionCalls_append [simp]:
  "sendTransactionCalls (a @ b) = sendTransactionCalls a @ sendTransactionCalls b"
  by (simp add: sendTransactionCalls_def)

lemma sendTransactionCalls_simps [simp]:
  "sendTransactionCalls [] = []"
  "sendTransactionCalls (NewTransactionCall p # w) = sendTransactionCalls w"
  "sendTransactionCalls (SimulateTransactionCall s # w) = sendTransactionCalls w"
  "sendTransactionCalls (SendTransactionCall s # w) = s # sendTransactionCalls w"
  "sendTransactionCalls (GetTransactionCall s # w) = sendTransactionCalls w"
  "sendTransactionCalls (GetLedgerEntriesCall ks # w) = sendTransactionCalls w"
  "sendTransactionCalls (Sleep d # w) = sendTransactionCalls w"
  by (simp_all add: sendTransactionCalls_def)

lemma GetLedgerEntries_sends:
  "GetLedgerEntries env ks w = (r, w') \<Longrightarrow> sendTransactionCalls w' = sendTransactionCalls w"
  by (auto simp: GetLedgerEntries_def split: sum.splits)

lemma IsCodeAlive_sends:
  "IsCodeAlive env c w = (r, w') \<Longrightarrow> sendTransactionCalls w' = sendTransactionCalls w"
  by (auto simp: IsCodeAlive_def split: option.splits sum.splits prod.splits list.splits
      dest!: GetLedgerEntries_sends)

lemma IsInstanceAlive_sends:
  "IsInstanceAlive env c w = (r, c', w') \<Longrightarrow> sendTransactionCalls w' = sendTransactionCalls w"
  by (auto simp: IsInstanceAlive_def split: option.splits sum.splits prod.splits list.splits
      dest!: GetLedgerEntries_sends)

lemma IsAlive_sends:
  "IsAlive env c w = (r, c', w') \<Longrightarrow> sendTransactionCalls w' = sendTransactionCalls w"
  by (auto simp: IsAlive_def split: sum.splits prod.splits
      dest!: IsCodeAlive_sends IsInstanceAlive_sends)

lemma SimulateTransaction_sends:
  "SimulateTransaction env tx w = (r, w') \<Longrightarrow> sendTransactionCalls w' = sendTransactionCalls w"
  by (auto simp: SimulateTransaction_def split: sum.splits)

lemma Simulate_sends:
  "Simulate env t w = (r, t', w') \<Longrightarrow> sendTransactionCalls w' = sendTransactionCalls w"
  by (auto simp: Simulate_def Let_def buildTx_def
      split: sum.splits option.splits prod.splits dest!: SimulateTransaction_sends)

lemmas alive_defs = IsAlive_def IsCodeAlive_def IsInstanceAlive_def GetCodeKey_def GetFootprint_def
  GetAddress_def getContractIdPreimage_def GetLedgerEntries_def len32_def Let_def

lemma IsAlive_envStale:
  "IsAlive envStale contract0 [] =
     (Inr True, contract1, [GetLedgerEntriesCall [''code''], GetLedgerEntriesCall [''instance'']])"
  by (simp add: alive_defs envStale_def env0_def contract0_defs contract1_def)

lemma Simulate_envStale:
  "\<exists>t' w'. Simulate envStale
      (contractTransaction envStale contract1
         (invokeHostFunctionOp (ScAddressTypeContract 20) invokeBuild0 (Account ''GABC''))
         [GetLedgerEntriesCall [''code''], GetLedgerEntriesCall [''instance'']])
      [GetLedgerEntriesCall [''code''], GetLedgerEntriesCall [''instance'']] =
    (Inr simulatedStale, t', w')"
  by (simp add: Simulate_defs envStale_def env0_def builder_defs contract0_defs contract1_def
      invoke0_defs simulatedStale_def)

lemma IsCodeAlive_answer:
  assumes "client c = Some cl"
    and "MarshalBinaryBase64 env (LedgerKeyContractCode (wasmHash c)) = Inr key"
    and "CallGetLedgerEntries env w [key] = Inr res"
  shows "IsCodeAlive env c w =
    (case Entries res of
       [] \<Rightarrow> Inl (Panic index_out_of_range)
     | entry # rest \<Rightarrow> Inr (LatestLedger res \<le> LiveUntilLedgerSeq entry, res),
     w @ [GetLedgerEntriesCall [key]])"
  using assms
  by (simp add: IsCodeAlive_def GetCodeKey_def len32_def GetLedgerEntries_def split: list.splits)

lemma IsInstanceAlive_answer:
  assumes "GetFootprint env c = (Inr ledgerKey, c1)" and "client c1 = Some cl"
    and "MarshalBinaryBase64 env ledgerKey = Inr key"
    and "CallGetLedgerEntries env w [key] = Inr res"
  shows "IsInstanceAlive env c w =
    (case Entries res of
       [] \<Rightarrow> Inr (False, res)
     | entry # rest \<Rightarrow> Inr (LatestLedger res \<le> LiveUntilLedgerSeq entry, res),
     c1, w @ [GetLedgerEntriesCall [key]])"
  using assms
  by (simp add: IsInstanceAlive_def GetLedgerEntries_def split: list.splits)

lemma Install_required_fields:
  "client c = None \<Longrightarrow> Install env c w = (Inl (Error ErrorRequiredClient), w)"
  "client c = Some cl \<Longrightarrow> source c = None \<Longrightarrow>
     Install env c w = (Inl (Error ErrorRequiredSource), w)"
  "client c = Some cl \<Longrightarrow> source c = Some src \<Longrightarrow> kp c = None \<Longrightarrow>
     Install env c w = (Inl (Error ErrorRequiredKeyPair), w)"
  by (simp_all add: Install_def)

text \<open>
  C2. On a ledger that answers a query with no entry, \<^verbatim>\<open>IsCodeAlive\<close> panics on the
  index \<^verbatim>\<open>Entries[0]\<close>, where \<^verbatim>\<open>IsInstanceAlive\<close> answers false with no error.
\<close>

theorem IsCodeAlive_panics_on_no_entry:
  "IsCodeAlive envNoEntries contract0 [] =
     (Inl (Panic index_out_of_range), [GetLedgerEntriesCall [''code'']]) \<and>
   fst (IsInstanceAlive envNoEntries contract0 []) =
     Inr (False, \<lparr>LatestLedger = 10, Entries = []\<rparr>)"
  by (simp add: alive_defs envNoEntries_def env0_def contract0_defs)

text \<open>
  C8. On a contract with a client, a source account and a key pair whose code bytes
  were never set, \<^verbatim>\<open>Install\<close> returns no error: it simulates and sends a transaction
  that uploads the empty code.
\<close>

theorem Install_without_wasm:
  "wasm contractNoWasm = [] \<and>
   fst (Install env0 contractNoWasm []) =
     Inr \<lparr>Hash = ''h'', sendStatus = ''PENDING'', ErrorResultXdr = []\<rparr> \<and>
   map Operations (newTransactionCalls (snd (Install env0 contractNoWasm []))) =
     [[InvokeHostFunction (HostFunctionTypeUploadContractWasm []) [] ''GABC''
         (TransactionExt 0 None)],
      [InvokeHostFunction (HostFunctionTypeUploadContractWasm [])
         [SorobanAuthorizationEntry ''a1'', SorobanAuthorizationEntry ''a2''] ''GABC''
         (TransactionExt 1 (Some (SorobanTransactionData [] [] ''A'')))]] \<and>
   sendTransactionCalls (snd (Install env0 contractNoWasm [])) = [''tx'']"
  by (simp add: Install_def simulateSubmitHostFunction_def Simulate_defs Send_def
      SendTransaction_def env0_def builder_defs contractNoWasm_def contract0_defs)

text \<open>
  C5. An invoke with a function name, on a contract for which \<^verbatim>\<open>IsAlive\<close> answers true:
  when the simulation of its invoke transaction returns a result whose restore
  preamble has a fee other than zero, \<^verbatim>\<open>Send\<close> returns the error
  \<^verbatim>\<open>ErrorContractDataNeedsRestore\<close>, and the trace holds no call of
  \<^verbatim>\<open>sendTransaction\<close> that it did not hold before.
\<close>

theorem invokeBuilder_Send_needs_restore:
  assumes "func b \<noteq> []"
    and "IsAlive env c w = (Inr True, c1, w1)"
    and "GetAddress env c1 = (Inr contractAddress, c2)"
    and "source c2 = Some src"
    and "Simulate env (contractTransaction env c2 (invokeHostFunctionOp contractAddress b src) w1)
           w1 = (Inr res, transaction, w2)"
    and "rpMinResourceFee (RestorePreamble res) \<noteq> 0"
  shows "invokeBuilder_Send env c b w = (Inl (Error ErrorContractDataNeedsRestore), c2, w2) \<and>
    sendTransactionCalls w2 = sendTransactionCalls w"
proof -
  have "invoke env c1 b False w1 = (Inl (Error ErrorContractDataNeedsRestore), c2, w2)"
    using assms(3-6) by (simp add: invoke_def)
  then have "invokeBuilder_Send env c b w = (Inl (Error ErrorContractDataNeedsRestore), c2, w2)"
    using assms(1,2) by (simp add: invokeBuilder_Send_def)
  moreover have "sendTransactionCalls w2 = sendTransactionCalls w"
    using IsAlive_sends [OF assms(2)] Simulate_sends [OF assms(5)] by simp
  ultimately show ?thesis by simp
qed


theorem invokeBuilder_Send_needs_restore_witness:
  "func invokeBuild0 \<noteq> [] \<and>
   IsAlive envStale contract0 [] =
     (Inr True, contract1, [GetLedgerEntriesCall [''code''], GetLedgerEntriesCall [''instance'']]) \<and>
   rpMinResourceFee (RestorePreamble simulatedStale) = 5 \<and>
   fst (invokeBuilder_Send envStale contract0 invokeBuild0 []) =
     Inl (Error ErrorContractDataNeedsRestore) \<and>
   sendTransactionCalls (snd (snd (invokeBuilder_Send envStale contract0 invokeBuild0 []))) = []"
proof -
  have h1: "func invokeBuild0 \<noteq> []"
    by (simp add: invoke0_defs)
  have h3: "GetAddress envStale contract1 = (Inr (ScAddressTypeContract 20), contract1)"
    by (simp add: GetAddress_def contract1_def)
  have h4: "source contract1 = Some (Account ''GABC'')"
    by (simp add: contract1_def contract0_defs)
  from Simulate_envStale obtain t' w' where
    h5: "Simulate envStale
      (contractTransaction envStale contract1
         (invokeHostFunctionOp (ScAddressTypeContract 20) invokeBuild0 (Account ''GABC''))
         [GetLedgerEntriesCall [''code''], GetLedgerEntriesCall [''instance'']])
      [GetLedgerEntriesCall [''code''], GetLedgerEntriesCall [''instance'']] =
    (Inr simulatedStale, t', w')"
    by blast
  have h6: "rpMinResourceFee (RestorePreamble simulatedStale) \<noteq> 0"
    and h7: "rpMinResourceFee (RestorePreamble simulatedStale) = 5"
    by (simp_all add: simulatedStale_def)
  from invokeBuilder_Send_needs_restore [OF h1 IsAlive_envStale h3 h4 h5 h6] show ?thesis
    using h1 h7 IsAlive_envStale by simp
qed

lemmas invoke_envStale_defs = invoke_def GetAddress_def Simulate_defs restoreTransaction_def
  Send_def SendTransaction_def GetTransaction_def waitCompletedTransaction_def loop_step_found
  envStale_def env0_def builder_defs contract0_defs contract1_def invoke0_defs simulatedStale_def

lemma invoke_envStale:
  "map Operations (newTransactionCalls (snd (snd (invoke envStale contract1 invokeBuild0 True
      [GetLedgerEntriesCall [''code''], GetLedgerEntriesCall [''instance'']])))) =
     [[InvokeHostFunction
         (HostFunctionTypeInvokeContract (ScAddressTypeContract 20) ''hello'' [ScvSymbol ''World''])
         [] ''GABC'' (TransactionExt 0 None)],
      [RestoreFootprint ''GABC'' (TransactionExt 1 (Some (SorobanTransactionData [] [] ''A'')))],
      [InvokeHostFunction
         (HostFunctionTypeInvokeContract (ScAddressTypeContract 20) ''hello'' [ScvSymbol ''World''])
         [SorobanAuthorizationEntry ''a1'', SorobanAuthorizationEntry ''a2''] ''GABC''
         (TransactionExt 1 (Some (SorobanTransactionData [] [] ''A'')))]]"
  by (simp add: invoke_envStale_defs)

lemma invoke_envStale_sends:
  "sendTransactionCalls (snd (snd (invoke envStale contract1 invokeBuild0 True
      [GetLedgerEntriesCall [''code''], GetLedgerEntriesCall [''instance'']]))) = [''tx'', ''tx'']"
  by (simp add: invoke_envStale_defs)

lemma invoke_envStale_polls:
  "getTransactionCalls (snd (snd (invoke envStale contract1 invokeBuild0 True
      [GetLedgerEntriesCall [''code''], GetLedgerEntriesCall [''instance'']]))) = [''h'']"
  by (simp add: invoke_envStale_defs)

text \<open>
  C6. The simulation answers with transaction data \<open>A\<close> and a restore preamble with
  transaction data \<open>B\<close>, which decodes to other data. The restore-footprint
  transaction that \<^verbatim>\<open>RestoreAndSend\<close> builds, the second of the three transactions it
  asks for, carries the data decoded from \<open>A\<close>. It sends that transaction, polls its
  hash, and sends the invoke.
\<close>

theorem RestoreAndSend_restores_with_invoke_data:
  "TransactionData simulatedStale = ''A'' \<and>
   RestorePreamble simulatedStale = \<lparr>rpMinResourceFee = 5, rpTransactionData = ''B''\<rparr> \<and>
   UnmarshalTransactionData envStale ''B'' = Inr (SorobanTransactionData [] [] ''B'') \<and>
   map Operations
     (newTransactionCalls (snd (snd (RestoreAndSend envStale contract0 invokeBuild0 [])))) =
     [[InvokeHostFunction
         (HostFunctionTypeInvokeContract (ScAddressTypeContract 20) ''hello'' [ScvSymbol ''World''])
         [] ''GABC'' (TransactionExt 0 None)],
      [RestoreFootprint ''GABC'' (TransactionExt 1 (Some (SorobanTransactionData [] [] ''A'')))],
      [InvokeHostFunction
         (HostFunctionTypeInvokeContract (ScAddressTypeContract 20) ''hello'' [ScvSymbol ''World''])
         [SorobanAuthorizationEntry ''a1'', SorobanAuthorizationEntry ''a2''] ''GABC''
         (TransactionExt 1 (Some (SorobanTransactionData [] [] ''A'')))]] \<and>
   sendTransactionCalls (snd (snd (RestoreAndSend envStale contract0 invokeBuild0 []))) =
     [''tx'', ''tx''] \<and>
   getTransactionCalls (snd (snd (RestoreAndSend envStale contract0 invokeBuild0 []))) = [''h'']"
proof -
  have f: "func invokeBuild0 \<noteq> []"
    by (simp add: invoke0_defs)
  have r: "RestoreAndSend envStale contract0 invokeBuild0 [] =
      invoke envStale contract1 invokeBuild0 True
        [GetLedgerEntriesCall [''code''], GetLedgerEntriesCall [''instance'']]"
    using f by (simp add: RestoreAndSend_def IsAlive_envStale)
  have d: "TransactionData simulatedStale = ''A''"
    "RestorePreamble simulatedStale = \<lparr>rpMinResourceFee = 5, rpTransactionData = ''B''\<rparr>"
    "UnmarshalTransactionData envStale ''B'' = Inr (SorobanTransactionData [] [] ''B'')"
    by (simp_all add: simulatedStale_def envStale_def env0_def)
  show ?thesis
    using d by (simp add: r invoke_envStale invoke_envStale_sends invoke_envStale_polls)
qed

end
